theory Spec2Isabelle
  imports Complex_Main "HOL-Library.Sublist"
begin

section \<open>Python text primitives\<close>

text \<open>
  A Python \<^verbatim>\<open>str\<close> is modelled as a \<^typ>\<open>string\<close>. Each \<^typ>\<open>char\<close> stands for the
  Unicode code point of the same number, so the texts of this development are the
  strings over code points below 256 (the Latin-1 block, which holds every letter of
  the English, Finnish and Swedish word lists of the source). The character tables
  below are those of Python 3 on that block. Python floats are modelled as reals.
\<close>

definition cp :: "char \<Rightarrow> nat" where
  "cp c = of_char c"

text \<open>\<^verbatim>\<open>str.lower\<close>: A-Z, and the accented capitals 192-214 and 216-222, move up by 32.\<close>

definition py_lower_char :: "char \<Rightarrow> char" where
  "py_lower_char c =
     (if (65 \<le> cp c \<and> cp c \<le> 90) \<or> (192 \<le> cp c \<and> cp c \<le> 214) \<or> (216 \<le> cp c \<and> cp c \<le> 222)
      then char_of (cp c + 32) else c)"

definition py_lower :: "string \<Rightarrow> string" where
  "py_lower s = map py_lower_char s"

text \<open>\<^verbatim>\<open>str.isspace\<close>, which is also the class \<^verbatim>\<open>\s\<close> of \<^verbatim>\<open>re\<close>.\<close>

definition is_space :: "char \<Rightarrow> bool" where
  "is_space c = ((9 \<le> cp c \<and> cp c \<le> 13) \<or> (28 \<le> cp c \<and> cp c \<le> 32) \<or> cp c = 133 \<or> cp c = 160)"

text \<open>The class \<^verbatim>\<open>\d\<close> of \<^verbatim>\<open>re\<close>.\<close>

definition is_digit :: "char \<Rightarrow> bool" where
  "is_digit c = (48 \<le> cp c \<and> cp c \<le> 57)"

text \<open>The class \<^verbatim>\<open>\w\<close> of \<^verbatim>\<open>re\<close>: alphanumeric code points and the underscore.\<close>

definition is_word :: "char \<Rightarrow> bool" where
  "is_word c =
     ((48 \<le> cp c \<and> cp c \<le> 57) \<or> (65 \<le> cp c \<and> cp c \<le> 90) \<or> cp c = 95 \<or>
      (97 \<le> cp c \<and> cp c \<le> 122) \<or> cp c = 170 \<or> cp c = 178 \<or> cp c = 179 \<or> cp c = 181 \<or>
      cp c = 185 \<or> cp c = 186 \<or> (188 \<le> cp c \<and> cp c \<le> 190) \<or> (192 \<le> cp c \<and> cp c \<le> 214) \<or>
      (216 \<le> cp c \<and> cp c \<le> 246) \<or> (248 \<le> cp c \<and> cp c \<le> 255))"

text \<open>\<^verbatim>\<open>str.strip()\<close> removes leading and trailing whitespace.\<close>

definition py_lstrip :: "string \<Rightarrow> string" where
  "py_lstrip s = dropWhile is_space s"

definition py_strip :: "string \<Rightarrow> string" where
  "py_strip s = rev (dropWhile is_space (rev (dropWhile is_space s)))"

text \<open>\<^verbatim>\<open>str.split()\<close>: the maximal runs of non-whitespace characters; \<open>cur\<close> is the
  run being read.\<close>

fun split_from :: "string \<Rightarrow> string \<Rightarrow> string list" where
  "split_from cur [] = (if cur = [] then [] else [cur])"
| "split_from cur (c # cs) =
     (if is_space c then (if cur = [] then split_from [] cs else cur # split_from [] cs)
      else split_from (cur @ [c]) cs)"

definition py_split :: "string \<Rightarrow> string list" where
  "py_split s = split_from [] s"

definition py_split_len :: "string \<Rightarrow> nat" where
  "py_split_len s = length (py_split s)"

text \<open>\<^verbatim>\<open>w in text\<close> on strings is containment as a contiguous substring;
  \<^verbatim>\<open>text.startswith(w)\<close> and \<^verbatim>\<open>text.endswith(w)\<close> are \<^const>\<open>prefix\<close> and \<^const>\<open>suffix\<close>.\<close>

definition py_in :: "string \<Rightarrow> string \<Rightarrow> bool" where
  "py_in w text = sublist w text"

text \<open>\<^verbatim>\<open>any(P(x) for x in xs)\<close>\<close>

primrec py_any :: "('a \<Rightarrow> bool) \<Rightarrow> 'a list \<Rightarrow> bool" where
  "py_any P [] = False"
| "py_any P (x # xs) = (P x \<or> py_any P xs)"

text \<open>\<^verbatim>\<open>any(w in text for w in ws)\<close>\<close>

definition any_in :: "string list \<Rightarrow> string \<Rightarrow> bool" where
  "any_in ws text = py_any (\<lambda>w. py_in w text) ws"

section \<open>The regular expressions of the source\<close>

text \<open>
  The patterns of the source use literals, \<^verbatim>\<open>.\<close>, character classes and their complements, \<^verbatim>\<open>\b\<close>, \<^verbatim>\<open>^\<close>,
  groups, alternation and the greedy \<^verbatim>\<open>?\<close>, \<^verbatim>\<open>*\<close> and \<^verbatim>\<open>+\<close>. A literal character of the
  source file that lies beyond code point 255 is kept as \<open>Beyond\<close> with its code point:
  it matches no character of a text of this model.
\<close>

datatype cset = Single char | Range char char | Digits | Spaces | Beyond nat

datatype rx =
    Lit string
  | AnyChar
  | Cls "cset list"
  | NotCls "cset list"
  | WordB
  | Bol
  | Seq "rx list"
  | Alt "rx list"
  | Opt rx
  | Star rx
  | Plus rx

text \<open>A position in the subject: the character before it, if any, and the rest.\<close>

type_synonym pos = "char option \<times> string"

fun cset_match :: "cset \<Rightarrow> char \<Rightarrow> bool" where
  "cset_match (Single a) c = (c = a)"
| "cset_match (Range a b) c = (cp a \<le> cp c \<and> cp c \<le> cp b)"
| "cset_match Digits c = is_digit c"
| "cset_match Spaces c = is_space c"
| "cset_match (Beyond n) c = False"

text \<open>Under \<^verbatim>\<open>re.IGNORECASE\<close> (the flag \<open>ic\<close>) two characters of the block match when
  their lowercase forms agree.\<close>

definition char_eq :: "bool \<Rightarrow> char \<Rightarrow> char \<Rightarrow> bool" where
  "char_eq ic p c = (if ic then py_lower_char p = py_lower_char c else p = c)"

definition at_word_boundary :: "pos \<Rightarrow> bool" where
  "at_word_boundary st =
     ((case fst st of None \<Rightarrow> False | Some c \<Rightarrow> is_word c) \<noteq>
      (case snd st of [] \<Rightarrow> False | c # _ \<Rightarrow> is_word c))"

fun lit_ends :: "bool \<Rightarrow> string \<Rightarrow> pos \<Rightarrow> pos list" where
  "lit_ends ic [] st = [st]"
| "lit_ends ic (p # ps) (prev, []) = []"
| "lit_ends ic (p # ps) (prev, c # cs) =
     (if char_eq ic p c then lit_ends ic ps (Some c, cs) else [])"

text \<open>Greedy repetition: every way to match the body once more (in the body's own
  order of preference), then the exit. An iteration must consume a character; the
  bodies repeated in the source always do.\<close>

fun star_ends :: "(pos \<Rightarrow> pos list) \<Rightarrow> nat \<Rightarrow> pos \<Rightarrow> pos list" where
  "star_ends f 0 st = [st]"
| "star_ends f (Suc n) st =
     concat (map (star_ends f n)
               (filter (\<lambda>st'. length (snd st') < length (snd st)) (f st))) @ [st]"

text \<open>\<open>ends ic r st\<close> lists the positions at which a match of \<open>r\<close> that starts at \<open>st\<close>
  can end, in the order in which a backtracking matcher finds them. The match that
  \<^verbatim>\<open>re\<close> reports at \<open>st\<close> is the head of this list.\<close>

fun ends :: "bool \<Rightarrow> rx \<Rightarrow> pos \<Rightarrow> pos list" where
  "ends ic (Lit s) st = lit_ends ic s st"
| "ends ic AnyChar st =
     (case snd st of [] \<Rightarrow> [] | c # cs \<Rightarrow> if cp c = 10 then [] else [(Some c, cs)])"
| "ends ic (Cls items) st =
     (case snd st of [] \<Rightarrow> []
      | c # cs \<Rightarrow> if py_any (\<lambda>i. cset_match i c) items then [(Some c, cs)] else [])"
| "ends ic (NotCls items) st =
     (case snd st of [] \<Rightarrow> []
      | c # cs \<Rightarrow> if py_any (\<lambda>i. cset_match i c) items then [] else [(Some c, cs)])"
| "ends ic WordB st = (if at_word_boundary st then [st] else [])"
| "ends ic Bol st = (if fst st = None then [st] else [])"
| "ends ic (Seq []) st = [st]"
| "ends ic (Seq (r # rs)) st = concat (map (ends ic (Seq rs)) (ends ic r st))"
| "ends ic (Alt []) st = []"
| "ends ic (Alt (r # rs)) st = ends ic r st @ ends ic (Alt rs) st"
| "ends ic (Opt r) st = ends ic r st @ [st]"
| "ends ic (Star r) st = star_ends (ends ic r) (length (snd st)) st"
| "ends ic (Plus r) st =
     concat (map (\<lambda>st'. star_ends (ends ic r) (length (snd st')) st') (ends ic r st))"

text \<open>The length of the match that \<^verbatim>\<open>re\<close> reports at a position, if there is one.\<close>

definition match_len :: "bool \<Rightarrow> rx \<Rightarrow> pos \<Rightarrow> nat option" where
  "match_len ic r st =
     (case ends ic r st of [] \<Rightarrow> None | e # _ \<Rightarrow> Some (length (snd st) - length (snd e)))"

text \<open>\<^verbatim>\<open>len(re.findall(r, text))\<close>: the scan moves through the text from the left; \<open>k\<close>
  is the number of characters still covered by the last match. No pattern of the source
  matches the empty string.\<close>

fun count_from :: "bool \<Rightarrow> rx \<Rightarrow> char option \<Rightarrow> string \<Rightarrow> nat \<Rightarrow> nat" where
  "count_from ic r p [] k = (if k = 0 \<and> match_len ic r (p, []) \<noteq> None then 1 else 0)"
| "count_from ic r p (c # cs) k =
     (if 0 < k then count_from ic r (Some c) cs (k - 1)
      else (case match_len ic r (p, c # cs) of
              None \<Rightarrow> count_from ic r (Some c) cs 0
            | Some n \<Rightarrow> 1 + count_from ic r (Some c) cs (n - 1)))"

definition findall_len :: "bool \<Rightarrow> rx \<Rightarrow> string \<Rightarrow> nat" where
  "findall_len ic r text = count_from ic r None text 0"

text \<open>\<^verbatim>\<open>re.findall(r, text)\<close> for a pattern whose only group spans the whole match:
  the matched substrings.\<close>

fun matches_from :: "bool \<Rightarrow> rx \<Rightarrow> char option \<Rightarrow> string \<Rightarrow> nat \<Rightarrow> string list" where
  "matches_from ic r p [] k = (if k = 0 \<and> match_len ic r (p, []) \<noteq> None then [[]] else [])"
| "matches_from ic r p (c # cs) k =
     (if 0 < k then matches_from ic r (Some c) cs (k - 1)
      else (case match_len ic r (p, c # cs) of
              None \<Rightarrow> matches_from ic r (Some c) cs 0
            | Some n \<Rightarrow> take n (c # cs) # matches_from ic r (Some c) cs (n - 1)))"

definition findall :: "bool \<Rightarrow> rx \<Rightarrow> string \<Rightarrow> string list" where
  "findall ic r text = matches_from ic r None text 0"

text \<open>\<^verbatim>\<open>re.search(r, text)\<close>, as a truth value: is there a match at some position?\<close>

fun search_from :: "bool \<Rightarrow> rx \<Rightarrow> char option \<Rightarrow> string \<Rightarrow> bool" where
  "search_from ic r p [] = (match_len ic r (p, []) \<noteq> None)"
| "search_from ic r p (c # cs) =
     (match_len ic r (p, c # cs) \<noteq> None \<or> search_from ic r (Some c) cs)"

definition re_search :: "bool \<Rightarrow> rx \<Rightarrow> string \<Rightarrow> bool" where
  "re_search ic r text = search_from ic r None text"

text \<open>\<^verbatim>\<open>re.sub(r, repl, text)\<close> for a replacement without group references.\<close>

fun sub_from :: "bool \<Rightarrow> rx \<Rightarrow> string \<Rightarrow> char option \<Rightarrow> string \<Rightarrow> nat \<Rightarrow> string" where
  "sub_from ic r repl p [] k = (if k = 0 \<and> match_len ic r (p, []) \<noteq> None then repl else [])"
| "sub_from ic r repl p (c # cs) k =
     (if 0 < k then sub_from ic r repl (Some c) cs (k - 1)
      else (case match_len ic r (p, c # cs) of
              None \<Rightarrow> c # sub_from ic r repl (Some c) cs 0
            | Some 0 \<Rightarrow> repl @ c # sub_from ic r repl (Some c) cs 0
            | Some (Suc n) \<Rightarrow> repl @ sub_from ic r repl (Some c) cs n))"

definition re_sub :: "bool \<Rightarrow> rx \<Rightarrow> string \<Rightarrow> string \<Rightarrow> string" where
  "re_sub ic r repl text = sub_from ic r repl None text 0"

section \<open>TextNormalizer (text\_normalizer.py)\<close>

text \<open>\<^verbatim>\<open>FILLER_WORDS\<close>, with the English list as the default of \<^verbatim>\<open>dict.get\<close>.\<close>

definition FILLER_WORDS_en :: "string list" where
  "FILLER_WORDS_en = [''um'', ''uh'', ''er'', ''ah'', ''like'', ''you know'', ''actually'',
     ''basically'', ''literally'', ''so'', ''well'', ''hmm'']"

definition FILLER_WORDS_fi :: "string list" where
  "FILLER_WORDS_fi = [[CHR 0xF6, CHR 0xF6], [CHR 0xE4, CHR 0xE4], ''tuota'', ''niin'', ''siis'', ''no'', ''no niin'']"

definition FILLER_WORDS_sv :: "string list" where
  "FILLER_WORDS_sv = [CHR 0xF6 # ''hm'', ''eh'', ''allts'' @ [CHR 0xE5], ''liksom'', ''typ'', ''va'']"

definition FILLER_WORDS :: "string \<Rightarrow> string list" where
  "FILLER_WORDS language =
     (if language = ''en'' then FILLER_WORDS_en
      else if language = ''fi'' then FILLER_WORDS_fi
      else if language = ''sv'' then FILLER_WORDS_sv
      else FILLER_WORDS_en)"

text \<open>\<^verbatim>\<open>r'\b' + re.escape(filler) + r'\b'\<close>\<close>

definition word_pattern :: "string \<Rightarrow> rx" where
  "word_pattern w = Seq [WordB, Lit w, WordB]"

definition remove_filler_words :: "string \<Rightarrow> string \<Rightarrow> string" where
  "remove_filler_words text language =
     foldl (\<lambda>t filler. re_sub True (word_pattern filler) [] t) text (FILLER_WORDS language)"

text \<open>The contraction table, in the order of the dictionary literal.\<close>

definition contractions :: "(string \<times> string) list" where
  "contractions =
    [(''don't'', ''do not''), (''doesn't'', ''does not''), (''didn't'', ''did not''),
     (''won't'', ''will not''), (''can't'', ''cannot''), (''couldn't'', ''could not''),
     (''shouldn't'', ''should not''), (''wouldn't'', ''would not''), (''isn't'', ''is not''),
     (''aren't'', ''are not''), (''wasn't'', ''was not''), (''weren't'', ''were not''),
     (''haven't'', ''have not''), (''hasn't'', ''has not''), (''hadn't'', ''had not''),
     (''i'm'', ''i am''), (''you're'', ''you are''), (''we're'', ''we are''),
     (''they're'', ''they are''), (''it's'', ''it is''), (''that's'', ''that is''),
     (''what's'', ''what is''), (''i'll'', ''i will''), (''you'll'', ''you will''),
     (''we'll'', ''we will''), (''i'd'', ''i would''), (''you'd'', ''you would''),
     (''i've'', ''i have''), (''you've'', ''you have'')]"

definition normalize_contractions :: "string \<Rightarrow> string \<Rightarrow> string" where
  "normalize_contractions text language =
     (if language \<noteq> ''en'' then text
      else foldl (\<lambda>t (contraction, expansion). re_sub True (Lit contraction) expansion t)
             text contractions)"

text \<open>\<^verbatim>\<open>TRANSCRIPTION_FIXES\<close> has an entry for English only.\<close>

definition TRANSCRIPTION_FIXES_en :: "(rx \<times> string) list" where
  "TRANSCRIPTION_FIXES_en =
    [(Seq [WordB, Lit ''to'', WordB], ''two''),
     (Seq [WordB, Lit ''for'', WordB], ''four''),
     (Seq [WordB, Lit ''hash'', WordB], ''#''),
     (Seq [WordB, Lit ''number sign'', WordB], ''#''),
     (Seq [WordB, Lit ''pound sign'', WordB], ''#'')]"

definition fix_transcription_errors :: "string \<Rightarrow> string \<Rightarrow> string" where
  "fix_transcription_errors text language =
     (if language \<noteq> ''en'' then text
      else foldl (\<lambda>t (pattern, replacement). re_sub True pattern replacement t)
             text TRANSCRIPTION_FIXES_en)"

text \<open>\<^verbatim>\<open>re.sub(r'\s+', ' ', text)\<close>\<close>

definition collapse_ws :: "string \<Rightarrow> string" where
  "collapse_ws text = re_sub False (Plus (Cls [Spaces])) '' '' text"

definition normalize_text :: "string \<Rightarrow> string \<Rightarrow> string" where
  "normalize_text text language =
     (if text = [] then text
      else
        let text1 = collapse_ws (py_strip text);
            text2 = remove_filler_words text1 language;
            text3 = normalize_contractions text2 language;
            text4 = fix_transcription_errors text3 language
        in py_strip (collapse_ws text4))"

section \<open>LanguageDetector (language\_detector.py)\<close>

text \<open>
  The indicator patterns and the two character classes, character by character as the
  source file holds them. In that file the accented letters of the Finnish and Swedish
  words are stored as pairs of other characters (U+0413 followed by U+04E8, U+0498 or
  U+00B6, and so on); of these only U+00B6 lies in the block of this model.
\<close>

definition LANGUAGE_INDICATORS_en :: "rx list" where
  "LANGUAGE_INDICATORS_en =
    [Seq [WordB, Alt [Lit ''yes'', Lit ''no'', Lit ''ok'', Lit ''okay'', Lit ''accept'',
       Lit ''reject'', Lit ''confirm'', Lit ''decline'', Lit ''hello'', Lit ''hi'',
       Lit ''thanks'', Lit ''thank you'', Lit ''please'', Lit ''sorry'', Lit ''problem'',
       Lit ''issue'', Lit ''delivery'', Lit ''order'', Lit ''status'', Lit ''feedback''], WordB],
     Seq [WordB, Alt [Lit ''that'', Lit ''this'', Lit ''would'', Lit ''could'', Lit ''should'',
       Lit ''will'', Lit ''can'', Lit ''want'', Lit ''need'', Lit ''like''], WordB]]"

definition LANGUAGE_INDICATORS_fi :: "rx list" where
  "LANGUAGE_INDICATORS_fi =
    [Seq [WordB, Alt [Seq [Lit ''kyll'', Cls [Beyond 0x413], Cls [Beyond 0x4E8]], Lit ''ei'',
       Lit ''okei'', Seq [Lit ''hyv'', Cls [Beyond 0x413], Cls [Beyond 0x4E8], Lit ''ksy''],
       Seq [Lit ''hylk'', Cls [Beyond 0x413], Cls [Beyond 0x4E8], Cls [Beyond 0x413],
       Cls [Beyond 0x4E8]], Lit ''vahvista'', Lit ''kiitos'', Lit ''hei'', Lit ''moi'',
       Lit ''anteeksi'', Lit ''ongelma'', Lit ''toimitus'', Lit ''tilaus'', Lit ''tila'',
       Lit ''palautetta''], WordB],
     Seq [WordB, Alt [Lit ''se'', Seq [Lit ''t'', Cls [Beyond 0x413], Cls [Beyond 0x4E8],
       Lit ''m'', Cls [Beyond 0x413], Cls [Beyond 0x4E8]], Lit ''tuo'', Lit ''voisi'',
       Lit ''voisit'', Lit ''haluan'', Lit ''tarvitsen'', Seq [Lit ''pit'', Cls [Beyond 0x413],
       Cls [Beyond 0x4E8], Lit ''isi'']], WordB]]"

definition LANGUAGE_INDICATORS_sv :: "rx list" where
  "LANGUAGE_INDICATORS_sv =
    [Seq [WordB, Alt [Lit ''ja'', Lit ''nej'', Lit ''okej'', Lit ''acceptera'', Lit ''avvisa'',
       Seq [Lit ''bekr'', Cls [Beyond 0x413], Cls [Beyond 0x4E8], Lit ''fta''], Lit ''tack'',
       Lit ''hej'', Seq [Lit ''hejd'', Cls [Beyond 0x413], Cls [Beyond 0x498]],
       Seq [Lit ''urs'', Cls [Beyond 0x413], Cls [Beyond 0x4E8], Lit ''kta''], Lit ''problem'',
       Lit ''leverans'', Seq [Lit ''best'', Cls [Beyond 0x413], Cls [Beyond 0x4E8],
       Lit ''llning''], Lit ''status'', Lit ''feedback''], WordB],
     Seq [WordB, Alt [Lit ''det'', Lit ''den'', Lit ''skulle'', Lit ''kunde'', Lit ''vill'',
       Seq [Lit ''beh'', Cls [Beyond 0x413], Lit ([CHR 0xB6] @ ''ver'')], Lit ''gillar''],
       WordB]]"

definition FINNISH_CHARS :: rx where
  "FINNISH_CHARS =
     Cls [Beyond 0x413, Beyond 0x4E8, Beyond 0x413, Single (CHR 0xB6), Beyond 0x413, Beyond 0x498,
    Beyond 0x413, Beyond 0x201E, Beyond 0x413, Beyond 0x2013, Beyond 0x413, Beyond 0x2026]"

definition SWEDISH_CHARS :: rx where
  "SWEDISH_CHARS =
     Cls [Beyond 0x413, Beyond 0x498, Beyond 0x413, Beyond 0x4E8, Beyond 0x413, Single (CHR 0xB6),
    Beyond 0x413, Beyond 0x2026, Beyond 0x413, Beyond 0x201E, Beyond 0x413, Beyond 0x2013]"


text \<open>\<^verbatim>\<open>max(items, key=lambda x: x[1])\<close> keeps the first of several maximal items.\<close>

fun max_item :: "('a \<times> real) \<Rightarrow> ('a \<times> real) list \<Rightarrow> 'a \<times> real" where
  "max_item best [] = best"
| "max_item best (x # xs) = max_item (if snd best < snd x then x else best) xs"

text \<open>On a non-empty list, which is all the source applies \<^verbatim>\<open>max\<close> to.\<close>

definition arg_max :: "('a \<times> real) list \<Rightarrow> 'a \<times> real" where
  "arg_max items = max_item (hd items) (tl items)"

text \<open>The sum of \<^verbatim>\<open>matches * 0.5\<close> over the indicator patterns of one language.\<close>

definition indicator_score :: "real \<Rightarrow> rx list \<Rightarrow> string \<Rightarrow> real" where
  "indicator_score start patterns text_lower =
     foldl (\<lambda>score pattern. score + real (findall_len True pattern text_lower) * 0.5)
       start patterns"

text \<open>The dictionary \<^verbatim>\<open>scores\<close> after the normalisation by the number of words,
  in its order \<^verbatim>\<open>en\<close>, \<^verbatim>\<open>fi\<close>, \<^verbatim>\<open>sv\<close>.\<close>

definition detect_scores :: "string \<Rightarrow> (string \<times> real) list" where
  "detect_scores text =
     (let text_lower = py_lower text;
          fi0 = (if re_search False FINNISH_CHARS text then 2.0 else 0.0);
          sv0 = (if re_search False SWEDISH_CHARS text then 2.0 else 0.0);
          scores = [(''en'', indicator_score 0.0 LANGUAGE_INDICATORS_en text_lower),
                    (''fi'', indicator_score fi0 LANGUAGE_INDICATORS_fi text_lower),
                    (''sv'', indicator_score sv0 LANGUAGE_INDICATORS_sv text_lower)];
          text_length = py_split_len text
      in if 0 < text_length
         then map (\<lambda>(lang, score). (lang, score / real (max text_length 1))) scores
         else scores)"

definition detect :: "string \<Rightarrow> string" where
  "detect text =
     (if text = [] then ''en''
      else
        let detected = arg_max (detect_scores text)
        in if snd detected < 0.1 then ''en'' else fst detected)"

section \<open>IntentClassifier (intent\_classifier.py)\<close>

text \<open>
  \<^verbatim>\<open>INTENT_PATTERNS\<close>: one list of patterns for each intent and language, in the order of
  the dictionary literal. All of them are compiled with \<^verbatim>\<open>re.IGNORECASE\<close>.
\<close>

definition confirm_substitution_en :: "rx list" where
  "confirm_substitution_en =
    [Seq [WordB, Alt [Lit ''yes'', Lit ''yeah'', Lit ''yep'', Lit ''ok'', Lit ''okay'',
       Lit ''accept'', Lit ''agreed'', Lit ''sure'', Lit ''fine'', Lit ''good'',
       Lit ''approved'', Lit ''confirm'', Lit ''confirmed''], WordB],
     Seq [WordB, Alt [Lit ''i accept'', Lit ''i agree'', Lit ''that works'',
       Lit ''sounds good'', Lit ''go ahead'', Lit ''proceed''], WordB],
     Seq [WordB, Alt [Seq [Lit ''i'', Opt (Lit [CHR 0x27]), Lit ''ll take''], Lit ''i want'',
       Seq [Lit ''i'', Opt (Lit [CHR 0x27]), Lit ''d like''], Seq [Lit ''i'',
       Opt (Lit [CHR 0x27]), Lit ''ll accept''], Lit ''take it'', Lit ''give me'',
       Lit ''send me''], WordB, Star AnyChar, WordB, Alt [Lit ''replacement'',
       Lit ''substitute'', Lit ''alternative'', Lit ''instead''], WordB],
     Seq [WordB, Alt [Lit ''replace'', Lit ''substitute'', Lit ''swap''], Star AnyChar, WordB,
       Alt [Lit ''it'', Lit ''them'', Lit ''this'', Lit ''that''], WordB]]"

definition confirm_substitution_fi :: "rx list" where
  "confirm_substitution_fi =
    [Seq [WordB, Alt [Lit (''kyll'' @ [CHR 0xE4]), Lit ''joo'', Lit ''okei'',
       Lit (''hyv'' @ [CHR 0xE4] @ ''ksyn''), Lit ''sopii'', Lit (''hyv'' @ [CHR 0xE4]),
       Lit (''hyv'' @ [CHR 0xE4] @ ''ksytty''), Lit ''vahvistan'',
       Lit (''sama k'' @ [CHR 0xE4] @ ''y''), Lit ''sopii mulle'', Lit ''ota se'',
       Lit ''anna se'', Lit (''l'' @ [CHR 0xE4] @ ''het'' @ [CHR 0xE4] @ '' se'')], WordB],
     Seq [WordB, Alt [Lit ''otan'', Lit ''haluan'', Lit ''saan''], Star AnyChar, WordB,
       Alt [Lit ''korvauksen'', Lit ''vaihtoehdon'', Lit ''tilalle''], WordB]]"

definition confirm_substitution_sv :: "rx list" where
  "confirm_substitution_sv =
    [Seq [WordB, Alt [Lit ''ja'', Lit ''okej'', Lit ''acceptera'',
       Lit (''godk'' @ [CHR 0xE4] @ ''nd''), Lit (''bekr'' @ [CHR 0xE4] @ ''fta''),
       Lit ''det fungerar'', Lit (''det l'' @ [CHR 0xE5] @ ''ter bra''),
       Lit (''g'' @ [CHR 0xE5] @ '' vidare''), Lit ''jag tar'', Lit ''jag vill ha'',
       Lit ''skicka''], WordB],
     Seq [WordB, Alt [Lit (''ers'' @ [CHR 0xE4] @ ''ttning''), Lit ''alternativ'',
       Lit (''ist'' @ [CHR 0xE4] @ ''llet'')], WordB]]"

definition reject_substitution_en :: "rx list" where
  "reject_substitution_en =
    [Seq [WordB, Alt [Lit ''no'', Lit ''nope'', Lit ''nah'', Lit ''decline'', Lit ''reject'',
       Lit ''refuse''], WordB],
     Seq [WordB, Alt [Seq [Lit ''don'', Opt (Lit [CHR 0x27]), Lit ''t want''],
       Seq [Lit ''don'', Opt (Lit [CHR 0x27]), Lit ''t need''], Seq [Lit ''don'',
       Opt (Lit [CHR 0x27]), Lit ''t like''], Seq [Lit ''don'', Opt (Lit [CHR 0x27]),
       Lit ''t accept'']], WordB],
     Seq [WordB, Alt [Seq [Lit ''i don'', Opt (Lit [CHR 0x27]), Lit ''t want''],
       Seq [Lit ''i don'', Opt (Lit [CHR 0x27]), Lit ''t need''], Seq [Lit ''i don'',
       Opt (Lit [CHR 0x27]), Lit ''t like''], Seq [Lit ''i don'', Opt (Lit [CHR 0x27]),
       Lit ''t accept'']], WordB],
     Seq [WordB, Alt [Lit ''no thanks'', Lit ''no thank you'', Lit ''not that'',
       Lit ''not interested'', Lit ''not acceptable''], WordB],
     Seq [WordB, Alt [Lit ''skip'', Lit ''cancel'', Lit ''remove'', Lit ''without'',
       Lit ''without it'', Lit ''leave it out'', Seq [Lit ''don'', Opt (Lit [CHR 0x27]),
       Lit ''t send''], Seq [Lit ''don'', Opt (Lit [CHR 0x27]), Lit ''t include'']], WordB],
     Seq [WordB, Alt [Lit ''not'', Seq [Lit ''don'', Opt (Lit [CHR 0x27]), Lit ''t''],
       Seq [Lit ''won'', Opt (Lit [CHR 0x27]), Lit ''t''], Seq [Lit ''can'',
       Opt (Lit [CHR 0x27]), Lit ''t'']], Star AnyChar, WordB, Alt [Lit ''agree'',
       Lit ''accept'', Lit ''want'', Lit ''need'', Lit ''like''], WordB]]"

definition reject_substitution_fi :: "rx list" where
  "reject_substitution_fi =
    [Seq [WordB, Alt [Lit ''ei'', Lit ''en halua'', Lit ''en tarvitse'',
       Lit (''hylk'' @ [CHR 0xE4] @ [CHR 0xE4] @ ''n''),
       Lit (''kielt'' @ [CHR 0xE4] @ ''ydyn''), Lit ''ei kiitos'', Lit ''ohita'',
       Lit ''poista'', Lit ''peruuta''], WordB],
     Seq [WordB, Alt [Lit ''ilman'', Lit (''j'' @ [CHR 0xE4] @ ''t'' @ [CHR 0xE4] @ '' pois''),
       Lit ([CHR 0xE4] @ ''l'' @ [CHR 0xE4] @ '' l'' @ [CHR 0xE4] @ ''het'' @ [CHR 0xE4]),
       Lit ([CHR 0xE4] @ ''l'' @ [CHR 0xE4] @ '' sis'' @ [CHR 0xE4] @ ''llyt'' @ [CHR 0xE4])],
       WordB]]"

definition reject_substitution_sv :: "rx list" where
  "reject_substitution_sv =
    [Seq [WordB, Alt [Lit ''nej'', Lit ''avvisa'', Lit ''jag vill inte'',
       Lit (''jag beh'' @ [CHR 0xF6] @ ''ver inte''), Lit ''inte intresserad'',
       Lit (''hoppa '' @ [CHR 0xF6] @ ''ver''), Lit ''ta bort'', Lit ''avbryt''], WordB],
     Seq [WordB, Alt [Lit ''utan'', Lit ''utan den'', Lit (''l'' @ [CHR 0xE4] @ ''mna bort''),
       Lit ''skicka inte'', Lit ''inkludera inte''], WordB]]"

definition request_callback_en :: "rx list" where
  "request_callback_en =
    [Seq [WordB, Alt [Lit ''call me'', Lit ''call back'', Lit ''callback'', Lit ''speak to'',
       Lit ''talk to'', Lit ''human'', Lit ''person'', Lit ''agent'', Lit ''representative'',
       Lit ''customer service''], WordB],
     Seq [WordB, Alt [Lit ''i want to'', Lit ''i need to'', Lit ''can i'', Lit ''may i'',
       Lit ''i would like to''], Star AnyChar, WordB, Alt [Lit ''speak'', Lit ''talk'',
       Lit ''call''], WordB],
     Seq [WordB, Alt [Lit ''contact me'', Lit ''reach me'', Lit ''get in touch''], WordB],
     Seq [WordB, Alt [Lit ''speak to'', Lit ''talk to''], Star AnyChar, WordB,
       Alt [Lit ''someone'', Lit ''human'', Lit ''person'', Lit ''agent'',
       Lit ''representative''], WordB],
     Seq [WordB, Alt [Lit ''i need'', Lit ''i want''], Star AnyChar, WordB,
       Alt [Lit ''to speak'', Lit ''to talk'', Lit ''to call'', Lit ''someone'', Lit ''human'',
       Lit ''person''], WordB]]"

definition request_callback_fi :: "rx list" where
  "request_callback_fi =
    [Seq [WordB, Alt [Lit ''soita'', Lit ''soita takaisin'', Lit ''puhu'', Lit ''ihminen'',
       Lit (''henkil'' @ [CHR 0xF6]), Lit ''asiakaspalvelu'', Lit ''edustaja''], WordB],
     Seq [WordB, Alt [Lit ''haluan'', Lit ''tarvitsen'', Lit ''voinko''], Star AnyChar, WordB,
       Alt [Lit ''puhua'', Lit ''soittaa''], WordB],
     Seq [WordB, Alt [Lit (''ota yhteytt'' @ [CHR 0xE4]), Lit ''yhteydenotto''], WordB]]"

definition request_callback_sv :: "rx list" where
  "request_callback_sv =
    [Seq [WordB, Alt [Lit ''ring mig'', Lit ''ring tillbaka'', Lit ''tala med'',
       Lit (''m'' @ [CHR 0xE4] @ ''nniska''), Lit ''person'', Lit ''agent'',
       Lit (''kundtj'' @ [CHR 0xE4] @ ''nst'')], WordB],
     Seq [WordB, Alt [Lit ''jag vill'', Lit (''jag beh'' @ [CHR 0xF6] @ ''ver''),
       Lit ''kan jag''], Star AnyChar, WordB, Alt [Lit ''tala'', Lit ''prata'', Lit ''ringa''],
       WordB],
     Seq [WordB, Alt [Lit ''kontakta mig'', Lit (''n'' @ [CHR 0xE5] @ '' mig'')], WordB]]"

definition report_issue_en :: "rx list" where
  "report_issue_en =
    [Seq [WordB, Alt [Lit ''missing'', Lit ''missed'', Seq [Lit ''didn'', Opt (Lit [CHR 0x27]),
       Lit ''t receive''], Lit ''did not receive'', Lit ''not received'',
       Lit ''never received'', Seq [Lit ''didn'', Opt (Lit [CHR 0x27]), Lit ''t get''],
       Lit ''did not get'', Lit ''not got'', Lit ''wrong'', Lit ''incorrect'', Lit ''damaged'',
       Lit ''broken'', Lit ''defective'', Lit ''problem'', Lit ''issue'', Lit ''complaint''],
       WordB],
     Seq [WordB, Alt [Lit ''item'', Lit ''product'', Lit ''order'', Lit ''delivery''],
       Star AnyChar, WordB, Alt [Lit ''missing'', Lit ''wrong'', Lit ''damaged'',
       Lit ''broken'', Lit ''not here'', Lit ''not delivered'', Seq [Lit ''didn'',
       Opt (Lit [CHR 0x27]), Lit ''t arrive''], Lit ''did not arrive''], WordB],
     Seq [WordB, Alt [Seq [Lit ''there'', Opt (Lit [CHR 0x27]), Lit ''s''], Lit ''there is'',
       Lit ''i have'', Seq [Lit ''i'', Opt (Lit [CHR 0x27]), Lit ''m missing''],
       Lit ''i am missing''], Star AnyChar, WordB, Alt [Lit ''problem'', Lit ''issue'',
       Lit ''complaint'', Lit ''missing''], WordB],
     Seq [WordB, Alt [Seq [Lit ''i didn'', Opt (Lit [CHR 0x27]), Lit ''t''], Lit ''i did not'',
       Seq [Lit ''i haven'', Opt (Lit [CHR 0x27]), Lit ''t''], Lit ''i have not''],
       Star AnyChar, WordB, Alt [Lit ''receive'', Lit ''get'', Lit ''receive'',
       Lit ''obtain''], WordB],
     Seq [WordB, Alt [Lit ''only'', Lit ''just'', Lit ''merely''], Star AnyChar, WordB,
       Plus (Cls [Digits]), Star AnyChar, WordB, Alt [Lit ''not'', Lit ''instead of'',
       Lit ''but not'', Lit ''but got'', Lit ''but received''], Star AnyChar, WordB,
       Plus (Cls [Digits]), WordB],
     Seq [WordB, Alt [Lit ''should be'', Lit ''should have'', Lit ''expected'',
       Lit ''supposed to be''], Star AnyChar, WordB, Plus (Cls [Digits]), Star AnyChar, WordB,
       Alt [Lit ''but'', Lit ''got'', Lit ''received'', Lit ''have'', Lit ''is'', Lit ''are''],
       Star AnyChar, WordB, Plus (Cls [Digits]), WordB],
     Seq [WordB, Alt [Lit ''i see'', Lit ''i notice'', Lit ''i notice that'', Lit ''there is'',
       Lit ''there are''], Star AnyChar, WordB, Alt [Lit ''only'', Lit ''just'',
       Lit ''merely''], Star AnyChar, WordB, Plus (Cls [Digits]), WordB],
     Seq [WordB, Alt [Lit ''quantity'', Lit ''amount'', Lit ''number''], Star AnyChar, WordB,
       Alt [Lit ''wrong'', Lit ''incorrect'', Lit ''not right'', Lit ''not correct'',
       Seq [Lit ''doesn'', Opt (Lit [CHR 0x27]), Lit ''t match''], Lit ''does not match''],
       WordB],
     Seq [WordB, Alt [Lit ''there is'', Seq [Lit ''there'', Opt (Lit [CHR 0x27]), Lit ''s''],
       Lit ''there are''], Star AnyChar, WordB, Alt [Lit ''no'', Lit ''not''], Star AnyChar,
       WordB, Alt [Lit ''in'', Lit ''from'', Lit ''with''], Star AnyChar, WordB,
       Alt [Lit ''my'', Lit ''the''], Star AnyChar, WordB, Alt [Lit ''order'',
       Lit ''delivery''], WordB],
     Seq [WordB, Alt [Lit ''in'', Lit ''from'', Lit ''with''], Star AnyChar, WordB,
       Alt [Lit ''my'', Lit ''the''], Star AnyChar, WordB, Alt [Lit ''order'',
       Lit ''delivery''], Star AnyChar, WordB, Alt [Lit ''there is'', Seq [Lit ''there'',
       Opt (Lit [CHR 0x27]), Lit ''s''], Lit ''there are''], Star AnyChar, WordB,
       Alt [Lit ''no'', Lit ''not''], WordB],
     Seq [WordB, Alt [Lit ''not'', Lit ''no''], Star AnyChar, WordB, Alt [Lit ''in'',
       Lit ''from'', Lit ''with''], Star AnyChar, WordB, Alt [Lit ''my'', Lit ''the''],
       Star AnyChar, WordB, Alt [Lit ''order'', Lit ''delivery''], WordB],
     Seq [WordB, Alt [Lit ''my'', Lit ''the''], Star AnyChar, WordB, Alt [Lit ''order'',
       Lit ''delivery''], Star AnyChar, WordB, Alt [Seq [Lit ''doesn'', Opt (Lit [CHR 0x27]),
       Lit ''t''], Lit ''does not'', Lit ''has no'', Lit ''have no'', Lit ''is missing'',
       Lit ''are missing''], WordB],
     Seq [WordB, Alt [Lit ''there is'', Seq [Lit ''there'', Opt (Lit [CHR 0x27]), Lit ''s'']],
       Star AnyChar, WordB, Alt [Lit ''no'', Lit ''not''], Star AnyChar, WordB,
       Alt [Lit ''product'', Lit ''item'', Lit ''thing''], WordB]]"

definition report_issue_fi :: "rx list" where
  "report_issue_fi =
    [Seq [WordB, Alt [Lit ''puuttuu'', Lit ''puuttui'', Lit ''ei tullut'', Lit ''ei saapunut'',
       Lit (''v'' @ [CHR 0xE4] @ [CHR 0xE4] @ ''r'' @ [CHR 0xE4]), Lit ''vahingoittunut'',
       Lit ''rikki'', Lit ''viallinen'', Lit ''ongelma'', Lit ''valitus''], WordB],
     Seq [WordB, Alt [Lit ''tuote'', Lit ''tilaus'', Lit ''toimitus''], Star AnyChar, WordB,
       Alt [Lit ''puuttuu'', Lit (''v'' @ [CHR 0xE4] @ [CHR 0xE4] @ ''r'' @ [CHR 0xE4]),
       Lit ''vahingoittunut'', Lit ''rikki'',
       Lit (''ei t'' @ [CHR 0xE4] @ [CHR 0xE4] @ ''ll'' @ [CHR 0xE4]), Lit ''ei toimitettu''],
       WordB],
     Seq [WordB, Alt [Lit ''minulla on'', Lit (''siell'' @ [CHR 0xE4] @ '' on'')],
       Star AnyChar, WordB, Alt [Lit ''ongelma'', Lit ''valitus''], WordB]]"

definition report_issue_sv :: "rx list" where
  "report_issue_sv =
    [Seq [WordB, Alt [Lit ''saknas'', Lit ''saknades'', Lit ''fick inte'', Lit ''mottog inte'',
       Lit ''fel'', Lit ''skadad'', Lit ''trasig'', Lit ''defekt'', Lit ''problem'',
       Lit (''klagom'' @ [CHR 0xE5] @ ''l'')], WordB],
     Seq [WordB, Alt [Lit ''produkt'', Lit (''best'' @ [CHR 0xE4] @ ''llning''),
       Lit ''leverans''], Star AnyChar, WordB, Alt [Lit ''saknas'', Lit ''fel'',
       Lit ''skadad'', Lit ''trasig'', Lit (''inte h'' @ [CHR 0xE4] @ ''r''),
       Lit ''inte levererad''], WordB],
     Seq [WordB, Alt [Lit ''det finns'', Lit ''jag har''], Star AnyChar, WordB,
       Alt [Lit ''problem'', Lit (''klagom'' @ [CHR 0xE5] @ ''l'')], WordB]]"

definition confirm_delivery_en :: "rx list" where
  "confirm_delivery_en =
    [Seq [WordB, Alt [Lit ''received'', Lit ''got it'', Lit ''arrived'', Lit ''delivered'',
       Lit ''everything is'', Lit ''all good'', Lit ''all here'', Lit ''complete'',
       Lit ''perfect'', Lit ''thank you''], WordB],
     Seq [WordB, Alt [Lit ''delivery'', Lit ''order''], Star AnyChar, WordB,
       Alt [Lit ''received'', Lit ''arrived'', Lit ''here'', Lit ''complete'', Lit ''good'',
       Lit ''perfect''], WordB],
     Seq [WordB, Alt [Lit ''everything'', Lit ''all items''], Star AnyChar, WordB,
       Alt [Lit ''here'', Lit ''received'', Lit ''arrived'', Lit ''good''], WordB]]"

definition confirm_delivery_fi :: "rx list" where
  "confirm_delivery_fi =
    [Seq [WordB, Alt [Lit ''sain'', Lit ''tuli'', Lit ''saapui'', Lit ''toimitettu'',
       Lit ''kaikki on'', Lit ''kaikki hyvin'', Lit ''valmis'',
       Lit (''t'' @ [CHR 0xE4] @ ''ydellinen''), Lit ''kiitos''], WordB],
     Seq [WordB, Alt [Lit ''toimitus'', Lit ''tilaus''], Star AnyChar, WordB,
       Alt [Lit ''saapui'', Lit (''t'' @ [CHR 0xE4] @ [CHR 0xE4] @ ''ll'' @ [CHR 0xE4]),
       Lit ''valmis'', Lit (''hyv'' @ [CHR 0xE4]), Lit (''t'' @ [CHR 0xE4] @ ''ydellinen'')],
       WordB],
     Seq [WordB, Alt [Lit ''kaikki'', Lit ''kaikki tuotteet''], Star AnyChar, WordB,
       Alt [Lit (''t'' @ [CHR 0xE4] @ [CHR 0xE4] @ ''ll'' @ [CHR 0xE4]), Lit ''saapui'',
       Lit (''hyv'' @ [CHR 0xE4])], WordB]]"

definition confirm_delivery_sv :: "rx list" where
  "confirm_delivery_sv =
    [Seq [WordB, Alt [Lit ''mottog'', Lit ''kom'', Lit (''anl'' @ [CHR 0xE4] @ ''nde''),
       Lit ''levererad'', Lit (''allt '' @ [CHR 0xE4] @ ''r''), Lit ''allt bra'',
       Lit ''komplett'', Lit ''perfekt'', Lit ''tack''], WordB],
     Seq [WordB, Alt [Lit ''leverans'', Lit (''best'' @ [CHR 0xE4] @ ''llning'')],
       Star AnyChar, WordB, Alt [Lit (''anl'' @ [CHR 0xE4] @ ''nde''),
       Lit (''h'' @ [CHR 0xE4] @ ''r''), Lit ''komplett'', Lit ''bra'', Lit ''perfekt''], WordB],
     Seq [WordB, Alt [Lit ''allt'', Lit ''alla produkter''], Star AnyChar, WordB,
       Alt [Lit (''h'' @ [CHR 0xE4] @ ''r''), Lit (''anl'' @ [CHR 0xE4] @ ''nde''),
       Lit ''bra''], WordB]]"

definition query_order_status_en :: "rx list" where
  "query_order_status_en =
    [Seq [WordB, Alt [Lit ''status'', Lit ''where is'', Lit ''when will'', Lit ''track'',
       Lit ''tracking'', Lit ''location'', Lit ''when'', Lit ''where''], WordB, Star AnyChar,
       WordB, Alt [Lit ''order'', Lit ''delivery'', Lit ''package'', Lit ''shipment''], WordB],
     Seq [WordB, Alt [Lit ''what'', Lit ''when'', Lit ''where''], Star AnyChar, WordB,
       Alt [Lit ''order'', Lit ''delivery'', Lit ''package''], WordB],
     Seq [WordB, Alt [Lit ''is my'', Lit ''check my'', Lit ''my order'', Lit ''order status''],
       WordB],
     Seq [WordB, Alt [Lit ''i need'', Lit ''i want'', Lit ''i have to''], Star AnyChar, WordB,
       Alt [Lit ''get'', Lit ''receive'', Lit ''have''], Star AnyChar, WordB, Alt [Lit ''it'',
       Lit ''order'', Lit ''delivery''], WordB]]"

definition query_order_status_fi :: "rx list" where
  "query_order_status_fi =
    [Seq [WordB, Alt [Lit ''tila'', Lit (''miss'' @ [CHR 0xE4] @ '' on''), Lit ''milloin'',
       Lit ''seuranta'', Lit ''sijainti'', Lit ''milloin'', Lit (''miss'' @ [CHR 0xE4])],
       WordB, Star AnyChar, WordB, Alt [Lit ''tilaus'', Lit ''toimitus'', Lit ''paketti''],
       WordB],
     Seq [WordB, Alt [Lit (''mik'' @ [CHR 0xE4]), Lit ''milloin'',
       Lit (''miss'' @ [CHR 0xE4])], Star AnyChar, WordB, Alt [Lit ''tilaus'',
       Lit ''toimitus''], WordB],
     Seq [WordB, Alt [Lit ''minun tilaus'', Lit ''tilauksen tila'', Lit ''tarkista tilaus''],
       WordB]]"

definition query_order_status_sv :: "rx list" where
  "query_order_status_sv =
    [Seq [WordB, Alt [Lit ''status'', Lit (''var '' @ [CHR 0xE4] @ ''r''),
       Lit (''n'' @ [CHR 0xE4] @ ''r kommer''), Lit (''sp'' @ [CHR 0xE5] @ ''rning''),
       Lit ''plats'', Lit (''n'' @ [CHR 0xE4] @ ''r''), Lit ''var''], WordB, Star AnyChar,
       WordB, Alt [Lit (''best'' @ [CHR 0xE4] @ ''llning''), Lit ''leverans'', Lit ''paket''],
       WordB],
     Seq [WordB, Alt [Lit ''vad'', Lit (''n'' @ [CHR 0xE4] @ ''r''), Lit ''var''],
       Star AnyChar, WordB, Alt [Lit (''best'' @ [CHR 0xE4] @ ''llning''), Lit ''leverans''],
       WordB],
     Seq [WordB, Alt [Lit (''min best'' @ [CHR 0xE4] @ ''llning''),
       Lit (''best'' @ [CHR 0xE4] @ ''llningsstatus''),
       Lit (''kolla best'' @ [CHR 0xE4] @ ''llning'')], WordB]]"

definition provide_feedback_en :: "rx list" where
  "provide_feedback_en =
    [Seq [WordB, Alt [Lit ''feedback'', Lit ''review'', Lit ''rating'', Lit ''rate'',
       Lit ''comment'', Lit ''opinion'', Lit ''suggestion'', Lit ''improve''], WordB],
     Seq [WordB, Alt [Lit ''how was'', Lit ''how did'', Lit ''what do you think'',
       Lit ''tell us'', Lit ''let us know''], WordB],
     Seq [WordB, Alt [Lit ''i want to'', Seq [Lit ''i'', Opt (Lit [CHR 0x27]),
       Lit ''d like to'']], Star AnyChar, WordB, Alt [Lit ''give'', Lit ''provide'',
       Lit ''leave''], Star AnyChar, WordB, Alt [Lit ''feedback'', Lit ''review'',
       Lit ''comment''], WordB]]"

definition provide_feedback_fi :: "rx list" where
  "provide_feedback_fi =
    [Seq [WordB, Alt [Lit ''palautetta'', Lit ''arvostelu'', Lit ''arvio'', Lit ''kommentti'',
       Lit ''mielipide'', Lit ''ehdotus'', Lit ''parantaa''], WordB],
     Seq [WordB, Alt [Lit ''miten'', Lit (''mit'' @ [CHR 0xE4] @ '' mielt'' @ [CHR 0xE4]),
       Lit ''kerro meille'', Lit ''kerro meille''], WordB],
     Seq [WordB, Alt [Lit ''haluan'', Lit ''haluaisin''], Star AnyChar, WordB,
       Alt [Lit ''antaa'', Lit (''j'' @ [CHR 0xE4] @ ''tt'' @ [CHR 0xE4] @ [CHR 0xE4])],
       Star AnyChar, WordB, Alt [Lit ''palautetta'', Lit ''arvostelua'', Lit ''kommenttia''],
       WordB]]"

definition provide_feedback_sv :: "rx list" where
  "provide_feedback_sv =
    [Seq [WordB, Alt [Lit ''feedback'', Lit ''recension'', Lit ''betyg'', Lit ''kommentar'',
       Lit ([CHR 0xE5] @ ''sikt''), Lit (''f'' @ [CHR 0xF6] @ ''rslag''),
       Lit (''f'' @ [CHR 0xF6] @ ''rb'' @ [CHR 0xE4] @ ''ttra'')], WordB],
     Seq [WordB, Alt [Lit ''hur var'', Lit ''hur gick'', Lit ''vad tycker du'',
       Lit (''ber'' @ [CHR 0xE4] @ ''tta''), Lit (''l'' @ [CHR 0xE5] @ ''t oss veta'')], WordB],
     Seq [WordB, Alt [Lit ''jag vill'', Lit ''jag skulle vilja''], Star AnyChar, WordB,
       Alt [Lit ''ge'', Lit (''l'' @ [CHR 0xE4] @ ''mna'')], Star AnyChar, WordB,
       Alt [Lit ''feedback'', Lit ''recension'', Lit ''kommentar''], WordB]]"

definition greeting_en :: "rx list" where
  "greeting_en =
    [Seq [WordB, Bol, Alt [Lit ''hello'', Lit ''hi'', Lit ''hey'', Lit ''good morning'',
       Lit ''good afternoon'', Lit ''good evening'', Lit ''greetings''], WordB],
     Seq [WordB, Alt [Lit ''hello'', Lit ''hi'', Lit ''hey''], WordB, Star AnyChar, WordB,
       Alt [Lit ''there'', Lit ''you''], WordB]]"

definition greeting_fi :: "rx list" where
  "greeting_fi =
    [Seq [WordB, Bol, Alt [Lit ''hei'', Lit ''moi'', Lit ''terve'',
       Lit (''hyv'' @ [CHR 0xE4] @ [CHR 0xE4] @ '' p'' @ [CHR 0xE4] @ ''iv'' @ [CHR 0xE4] @ [CHR 0xE4]),
       Lit (''p'' @ [CHR 0xE4] @ ''iv'' @ [CHR 0xE4] @ [CHR 0xE4]), Lit ''iltaa''], WordB],
     Seq [WordB, Alt [Lit ''hei'', Lit ''moi'', Lit ''terve''], WordB, Star AnyChar, WordB,
       Alt [Lit (''siell'' @ [CHR 0xE4]), Lit (''sin'' @ [CHR 0xE4])], WordB]]"

definition greeting_sv :: "rx list" where
  "greeting_sv =
    [Seq [WordB, Bol, Alt [Lit ''hej'', Lit (''hall'' @ [CHR 0xE5]), Lit ''god morgon'',
       Lit ''god eftermiddag'', Lit (''god kv'' @ [CHR 0xE4] @ ''ll''),
       Lit (''h'' @ [CHR 0xE4] @ ''lsningar'')], WordB],
     Seq [WordB, Alt [Lit ''hej'', Lit (''hall'' @ [CHR 0xE5])], WordB, Star AnyChar, WordB,
       Alt [Lit (''d'' @ [CHR 0xE4] @ ''r''), Lit ''du''], WordB]]"

definition query_substitution_en :: "rx list" where
  "query_substitution_en =
    [Seq [WordB, Alt [Lit ''what'', Lit ''which'', Lit ''tell me about''], Star AnyChar, WordB,
       Alt [Lit ''replacement'', Lit ''substitute'', Lit ''alternative'',
       Lit ''substitution''], WordB],
     Seq [WordB, Alt [Lit ''what did you'', Lit ''what are you''], Star AnyChar, WordB,
       Alt [Lit ''suggest'', Lit ''propose'', Lit ''recommend'', Lit ''offer''], WordB],
     Seq [WordB, Alt [Seq [Lit ''what'', Star AnyChar, Lit ''replacement''],
       Seq [Lit ''which'', Star AnyChar, Lit ''substitute''], Seq [Lit ''what'', Star AnyChar,
       Lit ''alternative'']], WordB],
     Seq [WordB, Alt [Lit ''tell me'', Lit ''show me'', Lit ''what is''], Star AnyChar, WordB,
       Alt [Lit ''the replacement'', Lit ''the substitute'', Lit ''the alternative''], WordB]]"

definition query_substitution_fi :: "rx list" where
  "query_substitution_fi =
    [Seq [WordB, Alt [Lit (''mik'' @ [CHR 0xE4]), Lit (''mit'' @ [CHR 0xE4]), Lit ''kerro''],
       Star AnyChar, WordB, Alt [Lit ''korvaus'', Lit ''vaihtoehto'', Lit ''korvaava''], WordB],
     Seq [WordB, Alt [Lit (''mik'' @ [CHR 0xE4] @ '' on''),
       Lit (''mit'' @ [CHR 0xE4] @ '' on'')], Star AnyChar, WordB, Alt [Lit ''korvaus'',
       Lit ''vaihtoehto''], WordB],
     Seq [WordB, Alt [Lit ''kerro'', Lit (''n'' @ [CHR 0xE4] @ ''yt'' @ [CHR 0xE4])],
       Star AnyChar, WordB, Alt [Lit ''korvaus'', Lit ''vaihtoehto''], WordB]]"

definition query_substitution_sv :: "rx list" where
  "query_substitution_sv =
    [Seq [WordB, Alt [Lit ''vad'', Lit ''vilken'', Lit (''ber'' @ [CHR 0xE4] @ ''tta'')],
       Star AnyChar, WordB, Alt [Lit (''ers'' @ [CHR 0xE4] @ ''ttning''), Lit ''alternativ'',
       Lit (''ers'' @ [CHR 0xE4] @ ''ttare'')], WordB],
     Seq [WordB, Alt [Lit (''vad '' @ [CHR 0xE4] @ ''r''),
       Lit (''vilken '' @ [CHR 0xE4] @ ''r'')], Star AnyChar, WordB,
       Alt [Lit (''ers'' @ [CHR 0xE4] @ ''ttning''), Lit ''alternativ''], WordB],
     Seq [WordB, Alt [Lit (''ber'' @ [CHR 0xE4] @ ''tta''), Lit ''visa''], Star AnyChar, WordB,
       Alt [Lit (''ers'' @ [CHR 0xE4] @ ''ttning''), Lit ''alternativ''], WordB]]"

definition thank_you_en :: "rx list" where
  "thank_you_en =
    [Seq [WordB, Alt [Lit ''thank you'', Lit ''thanks'', Lit ''thank'', Lit ''appreciate'',
       Lit ''appreciated'', Lit ''much appreciated'', Lit ''grateful''], WordB],
     Seq [WordB, Alt [Lit ''thanks a lot'', Lit ''thank you very much'',
       Lit ''thank you so much''], WordB],
     Seq [WordB, Alt [Lit ''i appreciate'', Lit ''i'm grateful'', Lit ''many thanks''], WordB]]"

definition thank_you_fi :: "rx list" where
  "thank_you_fi =
    [Seq [WordB, Alt [Lit ''kiitos'', Lit ''kiitoksia'', Lit (''kiit'' @ [CHR 0xE4] @ ''n''),
       Lit ''kiitoksia paljon'', Lit ''paljon kiitoksia''], WordB],
     Seq [WordB, Alt [Lit ''kiitos avusta'', Lit ''kiitos paljon''], WordB]]"

definition thank_you_sv :: "rx list" where
  "thank_you_sv =
    [Seq [WordB, Alt [Lit ''tack'', Lit (''tack s'' @ [CHR 0xE5] @ '' mycket''),
       Lit ''tusen tack'', Lit ''tackar''], WordB],
     Seq [WordB, Alt [Lit ''jag tackar'',
       Lit (''tack f'' @ [CHR 0xF6] @ ''r hj'' @ [CHR 0xE4] @ ''lpen'')], WordB]]"

definition change_delivery_en :: "rx list" where
  "change_delivery_en =
    [Seq [WordB, Alt [Lit ''change'', Lit ''modify'', Lit ''reschedule'', Lit ''move'',
       Lit ''shift''], Star AnyChar, WordB, Alt [Lit ''delivery'', Lit ''deliver'',
       Lit ''delivery time'', Lit ''delivery date'', Lit ''delivery address''], WordB],
     Seq [WordB, Alt [Lit ''different'', Lit ''another'', Lit ''new''], Star AnyChar, WordB,
       Alt [Lit ''time'', Lit ''date'', Lit ''address'', Lit ''location'', Lit ''place''],
       WordB, Star AnyChar, WordB, Alt [Lit ''delivery'', Lit ''deliver''], WordB],
     Seq [WordB, Alt [Lit ''can i'', Lit ''can you'', Lit ''i want to'', Lit ''i need to'',
       Lit ''i have to''], Star AnyChar, WordB, Alt [Lit ''change'', Lit ''reschedule'',
       Lit ''modify'', Lit ''get'', Lit ''receive''], Star AnyChar, WordB,
       Alt [Lit ''delivery'', Lit ''deliver'', Lit ''it'', Lit ''order''], WordB],
     Seq [WordB, Alt [Lit ''deliver'', Lit ''delivery''], Star AnyChar, WordB, Alt [Lit ''to'',
       Lit ''at'', Lit ''on''], Star AnyChar, WordB, Alt [Lit ''different'', Lit ''another'',
       Lit ''new''], WordB],
     Seq [WordB, Alt [Lit ''i need'', Lit ''i want'', Lit ''i have to''], Star AnyChar, WordB,
       Alt [Lit ''get'', Lit ''receive'', Lit ''have''], Star AnyChar, WordB, Alt [Lit ''it'',
       Lit ''order'', Lit ''delivery''], Star AnyChar, WordB, Alt [Lit ''tomorrow'',
       Lit ''today'', Lit ''monday'', Lit ''tuesday'', Lit ''wednesday'', Lit ''thursday'',
       Lit ''friday'', Lit ''saturday'', Lit ''sunday''], WordB],
     Seq [WordB, Alt [Lit ''need'', Lit ''want'', Lit ''have to''], Star AnyChar, WordB,
       Alt [Lit ''it'', Lit ''order'', Lit ''delivery''], Star AnyChar, WordB,
       Alt [Lit ''tomorrow'', Lit ''today'', Lit ''by'', Lit ''on'', Lit ''at''], WordB]]"

definition change_delivery_fi :: "rx list" where
  "change_delivery_fi =
    [Seq [WordB, Alt [Lit ''muuta'', Lit ''vaihda'', Lit (''siirr'' @ [CHR 0xE4]),
       Lit ''uudelleen''], Star AnyChar, WordB, Alt [Lit ''toimitus'', Lit ''toimitusaika'',
       Lit (''toimitusp'' @ [CHR 0xE4] @ ''iv'' @ [CHR 0xE4]), Lit ''toimitusosoite''], WordB],
     Seq [WordB, Alt [Lit ''eri'', Lit ''toinen'', Lit ''uusi''], Star AnyChar, WordB,
       Alt [Lit ''aika'', Lit (''p'' @ [CHR 0xE4] @ ''iv'' @ [CHR 0xE4]), Lit ''osoite'',
       Lit ''paikka''], Star AnyChar, WordB, Alt [Lit ''toimitus'', Lit ''toimitukselle''],
       WordB],
     Seq [WordB, Alt [Lit ''voinko'', Lit ''voisitko'', Lit ''haluan'', Lit ''tarvitsen''],
       Star AnyChar, WordB, Alt [Lit ''muuttaa'', Lit ''vaihtaa'',
       Lit (''siirt'' @ [CHR 0xE4] @ [CHR 0xE4])], Star AnyChar, WordB, Lit ''toimitus'', WordB]]"

definition change_delivery_sv :: "rx list" where
  "change_delivery_sv =
    [Seq [WordB, Alt [Lit ([CHR 0xE4] @ ''ndra''), Lit ''flytta'', Lit ''omplanera'',
       Lit (''f'' @ [CHR 0xF6] @ ''r'' @ [CHR 0xE4] @ ''ndra'')], Star AnyChar, WordB,
       Alt [Lit ''leverans'', Lit ''leveransdag'', Lit ''leveranstid'',
       Lit ''leveransadress''], WordB],
     Seq [WordB, Alt [Lit ''annan'', Lit ''ny'', Lit ''annan''], Star AnyChar, WordB,
       Alt [Lit ''tid'', Lit ''datum'', Lit ''adress'', Lit ''plats''], Star AnyChar, WordB,
       Alt [Lit ''leverans'', Lit ''leverans''], WordB],
     Seq [WordB, Alt [Lit ''kan jag'', Lit ''kan du'', Lit ''jag vill'',
       Lit (''jag beh'' @ [CHR 0xF6] @ ''ver'')], Star AnyChar, WordB,
       Alt [Lit ([CHR 0xE4] @ ''ndra''), Lit ''flytta'', Lit ''omplanera''], Star AnyChar,
       WordB, Lit ''leverans'', WordB]]"

definition cancel_order_en :: "rx list" where
  "cancel_order_en =
    [Seq [WordB, Alt [Lit ''cancel'', Lit ''stop'', Lit ''canceled'', Lit ''cancelled''],
       Star AnyChar, WordB, Alt [Lit ''order'', Lit ''my order'', Lit ''the order'',
       Lit ''delivery''], WordB],
     Seq [WordB, Alt [Seq [Lit ''don'', Opt (Lit [CHR 0x27]), Lit ''t''], Lit ''do not''],
       Star AnyChar, WordB, Alt [Lit ''deliver'', Lit ''send'', Lit ''ship''], WordB],
     Seq [WordB, Alt [Lit ''i want to'', Lit ''i need to'', Lit ''please''], Star AnyChar,
       WordB, Alt [Lit ''cancel'', Lit ''stop''], Star AnyChar, WordB, Alt [Lit ''order'',
       Lit ''delivery''], WordB],
     Seq [WordB, Alt [Lit ''cancel'', Lit ''stop'', Lit ''abort''], Star AnyChar, WordB,
       Alt [Lit ''it'', Lit ''the order'', Lit ''my order''], WordB]]"

definition cancel_order_fi :: "rx list" where
  "cancel_order_fi =
    [Seq [WordB, Alt [Lit ''peruuta'', Lit ''peru'', Lit ''lopeta''], Star AnyChar, WordB,
       Alt [Lit ''tilaus'', Lit ''minun tilaus'', Lit ''tilaukseni'', Lit ''toimitus''], WordB],
     Seq [WordB, Alt [Lit ([CHR 0xE4] @ ''l'' @ [CHR 0xE4]), Lit ''ei tarvitse''],
       Star AnyChar, WordB, Alt [Lit ''toimita'',
       Lit (''l'' @ [CHR 0xE4] @ ''het'' @ [CHR 0xE4])], WordB],
     Seq [WordB, Alt [Lit ''haluan'', Lit ''tarvitsen'', Lit ''voisitko''], Star AnyChar,
       WordB, Alt [Lit ''peruuttaa'', Lit ''lopettaa''], Star AnyChar, WordB,
       Alt [Lit ''tilaus'', Lit ''toimitus''], WordB]]"

definition cancel_order_sv :: "rx list" where
  "cancel_order_sv =
    [Seq [WordB, Alt [Lit ''avbryt'', Lit ''stoppa'', Lit ''avbokning''], Star AnyChar, WordB,
       Alt [Lit (''best'' @ [CHR 0xE4] @ ''llning''),
       Lit (''min best'' @ [CHR 0xE4] @ ''llning''), Lit ''leverans''], WordB],
     Seq [WordB, Alt [Lit ''leverera inte'', Lit ''skicka inte''], WordB],
     Seq [WordB, Alt [Lit ''jag vill'', Lit (''jag beh'' @ [CHR 0xF6] @ ''ver''),
       Lit ''kan du''], Star AnyChar, WordB, Alt [Lit ''avbryta'', Lit ''stoppa''],
       Star AnyChar, WordB, Alt [Lit (''best'' @ [CHR 0xE4] @ ''llning''), Lit ''leverans''],
       WordB]]"

definition query_products_en :: "rx list" where
  "query_products_en =
    [Seq [WordB, Alt [Lit ''do you have'', Lit ''do you sell'', Lit ''is available'',
       Lit ''is in stock'', Lit ''have available''], WordB],
     Seq [WordB, Alt [Lit ''what products'', Lit ''which products'', Lit ''what items'',
       Lit ''tell me about''], Star AnyChar, WordB, Alt [Lit ''do you have'',
       Lit ''are available''], WordB],
     Seq [WordB, Alt [Lit ''product info'', Lit ''product information'',
       Lit ''tell me about''], Star AnyChar, WordB, Alt [Lit ''product'', Lit ''item''], WordB],
     Seq [WordB, Alt [Lit ''is'', Lit ''are''], Star AnyChar, WordB, Alt [Lit ''available'',
       Lit ''in stock'', Lit ''you have''], WordB],
     Seq [WordB, Alt [Lit ''what'', Lit ''which''], Star AnyChar, WordB, Alt [Lit ''products'',
       Lit ''items''], Star AnyChar, WordB, Alt [Lit ''do you'', Lit ''are available'',
       Lit ''can i get''], WordB]]"

definition query_products_fi :: "rx list" where
  "query_products_fi =
    [Seq [WordB, Alt [Lit (''onko teill'' @ [CHR 0xE4]), Lit (''myyttek'' @ [CHR 0xF6]),
       Lit ''on saatavilla'', Lit ''on varastossa''], WordB],
     Seq [WordB, Alt [Lit (''mit'' @ [CHR 0xE4] @ '' tuotteita''),
       Lit (''mitk'' @ [CHR 0xE4] @ '' tuotteet''), Lit ''kerro''], Star AnyChar, WordB,
       Alt [Lit ''onko'', Lit (''myyttek'' @ [CHR 0xF6]), Lit ''on saatavilla''], WordB],
     Seq [WordB, Alt [Lit ''tuotetiedot'', Lit ''tuotteen tiedot'', Lit ''kerro''],
       Star AnyChar, WordB, Alt [Lit ''tuotteesta'', Lit ''tuotteesta''], WordB],
     Seq [WordB, Alt [Lit ''onko'', Lit ''ovatko''], Star AnyChar, WordB,
       Alt [Lit ''saatavilla'', Lit ''varastossa'', Lit (''teill'' @ [CHR 0xE4])], WordB]]"

definition query_products_sv :: "rx list" where
  "query_products_sv =
    [Seq [WordB, Alt [Lit ''har ni'', Lit (''s'' @ [CHR 0xE4] @ ''ljer ni''), Lit ''finns'',
       Lit ([CHR 0xE4] @ ''r tillg'' @ [CHR 0xE4] @ ''nglig''),
       Lit ([CHR 0xE4] @ ''r i lager'')], WordB],
     Seq [WordB, Alt [Lit ''vilka produkter'', Lit ''vilka varor'',
       Lit (''ber'' @ [CHR 0xE4] @ ''tta'')], Star AnyChar, WordB, Alt [Lit ''har ni'',
       Lit ''finns'', Lit ([CHR 0xE4] @ ''r tillg'' @ [CHR 0xE4] @ ''ngliga'')], WordB],
     Seq [WordB, Alt [Lit ''produktinfo'', Lit ''produktinformation'',
       Lit (''ber'' @ [CHR 0xE4] @ ''tta'')], Star AnyChar, WordB, Alt [Lit ''om produkt'',
       Lit ''om varan''], WordB],
     Seq [WordB, Alt [Lit ''finns'', Lit ([CHR 0xE4] @ ''r'')], Star AnyChar, WordB,
       Alt [Lit (''tillg'' @ [CHR 0xE4] @ ''nglig''), Lit ''i lager'', Lit ''har ni''], WordB]]"

definition INTENT_PATTERNS :: "(string \<times> (string \<times> rx list) list) list" where
  "INTENT_PATTERNS =
    [(''confirm_substitution'',
       [(''en'', confirm_substitution_en), (''fi'', confirm_substitution_fi), (''sv'', confirm_substitution_sv)]),
     (''reject_substitution'',
       [(''en'', reject_substitution_en), (''fi'', reject_substitution_fi), (''sv'', reject_substitution_sv)]),
     (''request_callback'',
       [(''en'', request_callback_en), (''fi'', request_callback_fi), (''sv'', request_callback_sv)]),
     (''report_issue'',
       [(''en'', report_issue_en), (''fi'', report_issue_fi), (''sv'', report_issue_sv)]),
     (''confirm_delivery'',
       [(''en'', confirm_delivery_en), (''fi'', confirm_delivery_fi), (''sv'', confirm_delivery_sv)]),
     (''query_order_status'',
       [(''en'', query_order_status_en), (''fi'', query_order_status_fi), (''sv'', query_order_status_sv)]),
     (''provide_feedback'',
       [(''en'', provide_feedback_en), (''fi'', provide_feedback_fi), (''sv'', provide_feedback_sv)]),
     (''greeting'',
       [(''en'', greeting_en), (''fi'', greeting_fi), (''sv'', greeting_sv)]),
     (''query_substitution'',
       [(''en'', query_substitution_en), (''fi'', query_substitution_fi), (''sv'', query_substitution_sv)]),
     (''thank_you'',
       [(''en'', thank_you_en), (''fi'', thank_you_fi), (''sv'', thank_you_sv)]),
     (''change_delivery'',
       [(''en'', change_delivery_en), (''fi'', change_delivery_fi), (''sv'', change_delivery_sv)]),
     (''cancel_order'',
       [(''en'', cancel_order_en), (''fi'', cancel_order_fi), (''sv'', cancel_order_sv)]),
     (''query_products'',
       [(''en'', query_products_en), (''fi'', query_products_fi), (''sv'', query_products_sv)])]"

text \<open>\<^verbatim>\<open>lang_patterns.get(language, lang_patterns.get('en', []))\<close>\<close>

definition lang_get :: "(string \<times> 'a list) list \<Rightarrow> string \<Rightarrow> 'a list" where
  "lang_get lang_patterns language =
     (case map_of lang_patterns language of
        Some ps \<Rightarrow> ps
      | None \<Rightarrow> (case map_of lang_patterns ''en'' of Some ps \<Rightarrow> ps | None \<Rightarrow> []))"

text \<open>One round of the loop over the patterns of an intent:
  \<^verbatim>\<open>score += len(matches) * 0.3\<close>, and \<^verbatim>\<open>score += 0.5\<close> if \<^verbatim>\<open>pattern.search\<close> succeeds.\<close>

definition pattern_step :: "string \<Rightarrow> real \<Rightarrow> rx \<Rightarrow> real" where
  "pattern_step text_lower score pattern =
     (if 0 < findall_len True pattern text_lower
      then (if re_search True pattern text_lower
            then score + real (findall_len True pattern text_lower) * 0.3 + 0.5
            else score + real (findall_len True pattern text_lower) * 0.3)
      else score)"

text \<open>The score of an intent before the adjustments.\<close>

definition pattern_score :: "rx list \<Rightarrow> string \<Rightarrow> real" where
  "pattern_score patterns text_lower = foldl (pattern_step text_lower) 0.0 patterns"

text \<open>\<^verbatim>\<open>_has_negation\<close>: a negation word occurs in the text as a substring.\<close>

definition negation_words_en :: "string list" where
  "negation_words_en =
     [''no'', ''not'', ''don't'', ''doesn't'', ''didn't'', ''won't'', ''can't'', ''couldn't'',
      ''shouldn't'', ''wouldn't'', ''isn't'', ''aren't'', ''wasn't'', ''weren't'', ''never'',
      ''nothing'', ''nobody'']"

definition negation_words_fi :: "string list" where
  "negation_words_fi =
     [''ei'', ''en'', ''et'', ''emme'', ''ette'', ''eiv'' @ [CHR 0xE4] @ ''t'', ''ei ole'',
      ''ei ollut'', ''ei koskaan'']"

definition negation_words_sv :: "string list" where
  "negation_words_sv =
     [''inte'', ''ej'', ''aldrig'', ''ingenting'', ''ingen'', [CHR 0xE4] @ ''r inte'', ''var inte'']"

definition negation_words :: "(string \<times> string list) list" where
  "negation_words =
     [(''en'', negation_words_en), (''fi'', negation_words_fi), (''sv'', negation_words_sv)]"

definition has_negation :: "string \<Rightarrow> string \<Rightarrow> bool" where
  "has_negation text language = any_in (lang_get negation_words language) text"

definition callback_phrases :: "string list" where
  "callback_phrases =
     [''speak to'', ''talk to'', ''need to speak'', ''want to speak'', ''someone'', ''human'',
      ''person'', ''agent'']"

definition discrepancy_phrases :: "string list" where
  "discrepancy_phrases =
     [''only'', ''not'', ''should be'', ''expected'', ''but got'', ''but received'',
      ''instead of'', ''quantity'', ''amount'', ''number'']"

definition issue_phrases :: "string list" where
  "issue_phrases =
     [''there is no'', ''there's no'', ''there are no'', ''not in my order'',
      ''missing from my order'', ''in my order there is no'']"

definition time_words :: "string list" where
  "time_words =
     [''tomorrow'', ''today'', ''monday'', ''tuesday'', ''wednesday'', ''thursday'', ''friday'',
      ''saturday'', ''sunday'', ''next week'']"

definition need_words :: "string list" where
  "need_words = [''need'', ''want'', ''have to'', ''must'', ''should'', ''get'', ''receive'']"

text \<open>\<^verbatim>\<open>re.findall(r'\b\d+\b', text_lower)\<close>\<close>

definition number_pattern :: rx where
  "number_pattern = Seq [WordB, Plus (Cls [Digits]), WordB]"

text \<open>The adjustments of the score of one intent, in the order of the source.\<close>

definition adjust_score :: "string \<Rightarrow> string \<Rightarrow> bool \<Rightarrow> real \<Rightarrow> real" where
  "adjust_score intent text_lower negation score0 =
     (let score1 = (if intent = ''confirm_substitution'' \<and> negation then score0 * 0.1 else score0);
          score2 = (if intent = ''reject_substitution'' \<and> negation then score1 * 1.5 else score1);
          score3 = (if intent = ''request_callback'' \<and> any_in callback_phrases text_lower
                    then score2 * 1.5 else score2);
          score4 = (if intent = ''report_issue'' \<and> any_in callback_phrases text_lower
                    then score3 * 0.3 else score3);
          score5 = (if intent = ''report_issue'' \<and> any_in discrepancy_phrases text_lower \<and>
                       2 \<le> findall_len False number_pattern text_lower
                    then score4 * 1.5 else score4);
          score6 = (if intent = ''report_issue'' \<and> any_in issue_phrases text_lower
                    then score5 * 2.0 else score5);
          score7 = (if intent = ''reject_substitution'' \<and>
                       (py_in ''in my order'' text_lower \<or> py_in ''from my order'' text_lower)
                    then score6 * 0.3 else score6);
          score8 = (if (intent = ''change_delivery'' \<or> intent = ''query_order_status'') \<and>
                       any_in time_words text_lower \<and> any_in need_words text_lower
                    then score7 * 1.4 else score7)
      in score8)"

text \<open>The score of one intent after the loop body: patterns, then adjustments.\<close>

definition intent_score :: "string \<Rightarrow> (string \<times> rx list) list \<Rightarrow> string \<Rightarrow> string \<Rightarrow> real" where
  "intent_score intent lang_patterns language text_lower =
     adjust_score intent text_lower (has_negation text_lower language)
       (pattern_score (lang_get lang_patterns language) text_lower)"

text \<open>The dictionary \<^verbatim>\<open>intent_scores\<close> is an association list in insertion order; an
  intent enters it only with a positive score.\<close>

type_synonym scores = "(string \<times> real) list"

definition rule_scores :: "string \<Rightarrow> string \<Rightarrow> scores" where
  "rule_scores text_lower language =
     filter (\<lambda>entry. 0 < snd entry)
       (map (\<lambda>entry. (fst entry, intent_score (fst entry) (snd entry) language text_lower))
          INTENT_PATTERNS)"

text \<open>\<^verbatim>\<open>key in d\<close>, \<^verbatim>\<open>d[key] *= factor\<close> under \<^verbatim>\<open>if key in d\<close>, and
  \<^verbatim>\<open>d[key] = value\<close> under \<^verbatim>\<open>if key not in d\<close> (a new key goes to the end).\<close>

definition has_key :: "string \<Rightarrow> scores \<Rightarrow> bool" where
  "has_key key d = (map_of d key \<noteq> None)"

definition boost :: "string \<Rightarrow> real \<Rightarrow> scores \<Rightarrow> scores" where
  "boost key factor d =
     (if has_key key d
      then map (\<lambda>entry. if fst entry = key then (key, snd entry * factor) else entry) d
      else d)"

definition seed :: "string \<Rightarrow> real \<Rightarrow> scores \<Rightarrow> scores" where
  "seed key v d = (if has_key key d then d else d @ [(key, v)])"

text \<open>The context of a call. \<open>None\<close> stands for \<^verbatim>\<open>None\<close> and for the empty dictionary, which
  the source treats alike. \<open>conversation_stage\<close> is \<^verbatim>\<open>context.get('conversation_stage')\<close>,
  \<open>proposed_solution\<close> the truth value of \<^verbatim>\<open>context.get('proposed_solution')\<close>,
  \<open>proposed_substitute\<close> the entry of that name and \<open>context_str\<close> is \<^verbatim>\<open>str(context)\<close>.\<close>

record call_context =
  conversation_stage :: "string option"
  proposed_solution :: bool
  proposed_substitute :: "string option"
  context_str :: string

definition stage_of :: "call_context option \<Rightarrow> string option" where
  "stage_of ctx = (case ctx of None \<Rightarrow> None | Some c \<Rightarrow> conversation_stage c)"

text \<open>The truth value of \<^verbatim>\<open>conversation_stage\<close>: neither \<^verbatim>\<open>None\<close> nor empty.\<close>

definition truthy :: "string option \<Rightarrow> bool" where
  "truthy v = (case v of None \<Rightarrow> False | Some s \<Rightarrow> s \<noteq> [])"

definition pre_order_adjust :: "string \<Rightarrow> scores \<Rightarrow> scores" where
  "pre_order_adjust text_lower d0 =
     (let d1 = boost ''confirm_substitution'' 1.8 d0;
          d2 = boost ''reject_substitution'' 1.8 d1;
          d3 = boost ''query_substitution'' 1.5 d2;
          d4 = (if List.member [''yes'', ''yeah'', ''yep'', ''ok'', ''okay'', ''sure''] (py_strip text_lower)
                then seed ''confirm_substitution'' 0.7 d3 else d3);
          d5 = (if List.member [''no'', ''nope'', ''nah''] (py_strip text_lower)
                then seed ''reject_substitution'' 0.7 d4 else d4)
      in d5)"

definition issue_indicators :: "string list" where
  "issue_indicators =
     [''didn't receive'', ''did not receive'', ''not receive'', ''missing'', ''didn't get'',
      ''there is no'', ''there's no'', ''not in my order'', ''missing from my order'']"

definition post_delivery_adjust :: "string \<Rightarrow> call_context option \<Rightarrow> scores \<Rightarrow> scores" where
  "post_delivery_adjust text_lower ctx d0 =
     (let d1 = boost ''report_issue'' 1.8 d0;
          d2 = boost ''confirm_delivery'' 1.5 d1;
          d3 = boost ''query_order_status'' 1.5 d2;
          d4 = (if (case ctx of None \<Rightarrow> False | Some c \<Rightarrow> proposed_solution c)
                then boost ''reject_substitution'' 1.5 (boost ''confirm_substitution'' 1.5 d3)
                else d3);
          d5 = (if any_in issue_indicators text_lower
                then (if \<not> has_key ''report_issue'' d4
                      then d4 @ [(''report_issue'', 0.7)]
                      else boost ''report_issue'' 1.5 d4)
                else d4)
      in d5)"

text \<open>The adjustment for a context without a stage (\<^verbatim>\<open>if context and not conversation_stage\<close>).\<close>

definition legacy_adjust :: "call_context option \<Rightarrow> scores \<Rightarrow> scores" where
  "legacy_adjust ctx d0 =
     (case ctx of
        None \<Rightarrow> d0
      | Some c \<Rightarrow>
          if \<not> truthy (conversation_stage c) \<and>
             (py_in ''substitution'' (py_lower (context_str c)) \<or>
              py_in ''replacement'' (py_lower (context_str c)))
          then boost ''reject_substitution'' 1.5 (boost ''confirm_substitution'' 1.5 d0)
          else d0)"

definition context_adjust :: "string \<Rightarrow> call_context option \<Rightarrow> scores \<Rightarrow> scores" where
  "context_adjust text_lower ctx d0 =
     legacy_adjust ctx
       (if stage_of ctx = Some ''pre_order_substitution'' then pre_order_adjust text_lower d0
        else if stage_of ctx = Some ''post_delivery_investigation''
        then post_delivery_adjust text_lower ctx d0
        else d0)"

text \<open>\<^verbatim>\<open>max(values)\<close> of a non-empty list.\<close>

definition max_value :: "real list \<Rightarrow> real" where
  "max_value vs = foldl max (hd vs) (tl vs)"

text \<open>\<^verbatim>\<open>min(base_confidence * dominance_ratio * vague_penalty, 0.95)\<close>, then
  \<^verbatim>\<open>max(confidence, 0.5)\<close>.\<close>

definition final_confidence :: "real \<Rightarrow> real \<Rightarrow> real \<Rightarrow> real" where
  "final_confidence base_confidence dominance_ratio vague_penalty =
     max (min (base_confidence * dominance_ratio * vague_penalty) 0.95) 0.5"

text \<open>The scores divided by \<^verbatim>\<open>max(max_score, 1.0)\<close>.\<close>

definition normalized_scores :: "scores \<Rightarrow> scores" where
  "normalized_scores intent_scores =
     (let max_score = max_value (map snd intent_scores)
      in map (\<lambda>entry. (fst entry, snd entry / max max_score 1.0)) intent_scores)"

text \<open>The confidence of the best intent, for a dictionary that is not empty.\<close>

definition rule_confidence :: "string \<Rightarrow> scores \<Rightarrow> real" where
  "rule_confidence text intent_scores =
     (let max_score = max_value (map snd intent_scores);
          total_score = sum_list (map snd intent_scores);
          best_intent = arg_max (normalized_scores intent_scores);
          base_confidence = snd best_intent;
          num_matching_intents = length intent_scores;
          dominance_ratio =
            (if 0 < total_score then base_confidence / max (total_score / max_score) 1.0
             else base_confidence);
          text_words = py_split_len text;
          vague_penalty0 = (if text_words \<le> 4 then 0.85 else 1.0);
          vague_penalty = (if 1 < num_matching_intents then vague_penalty0 * 0.9 else vague_penalty0)
      in final_confidence base_confidence dominance_ratio vague_penalty)"

text \<open>The rule-based result: intent, confidence and the normalised scores.\<close>

definition rule_based :: "string \<Rightarrow> scores \<Rightarrow> string \<times> real \<times> scores" where
  "rule_based text intent_scores =
     (if intent_scores \<noteq> []
      then (fst (arg_max (normalized_scores intent_scores)),
            rule_confidence text intent_scores,
            normalized_scores intent_scores)
      else (''unknown'', 0.3, []))"

subsection \<open>SemanticIntentClassifier (semantic\_intent\_classifier.py)\<close>

text \<open>
  The TF-IDF vectors and the cosine similarity come from scikit-learn. They enter as
  the fields of the classifier object: \<open>vectorizer_ok\<close> says that the vectorizer was
  fitted (\<^verbatim>\<open>is_available()\<close>), \<open>max_similarity intent text\<close> is the largest cosine
  similarity of the text with the examples of the intent (\<open>None\<close> when the intent has no
  vectors), and \<open>transform_fails text\<close> says that vectorising the text raises, which the
  source answers with the empty list.
\<close>

record semantic_classifier =
  vectorizer_ok :: bool
  max_similarity :: "string \<Rightarrow> string \<Rightarrow> real option"
  transform_fails :: "string \<Rightarrow> bool"

text \<open>The keys of \<^verbatim>\<open>INTENT_EXAMPLES\<close> (intent\_examples.py) that have examples, in the
  order of that dictionary; \<^verbatim>\<open>unknown\<close> is skipped.\<close>

definition EXAMPLE_INTENTS :: "string list" where
  "EXAMPLE_INTENTS =
     [''confirm_substitution'', ''reject_substitution'', ''request_callback'', ''report_issue'',
      ''confirm_delivery'', ''query_order_status'', ''query_substitution'', ''thank_you'',
      ''change_delivery'', ''cancel_order'', ''query_products'', ''provide_feedback'',
      ''greeting'']"

definition is_available :: "semantic_classifier \<Rightarrow> bool" where
  "is_available sc = vectorizer_ok sc"

text \<open>The similarity of one intent, clipped as \<^verbatim>\<open>max(0.0, min(1.0, max_similarity))\<close>.\<close>

definition semantic_scores :: "semantic_classifier \<Rightarrow> string \<Rightarrow> scores" where
  "semantic_scores sc text =
     List.map_filter
       (\<lambda>intent. map_option (\<lambda>m. (intent, max 0.0 (min 1.0 m))) (max_similarity sc intent text))
       EXAMPLE_INTENTS"

text \<open>\<^verbatim>\<open>sorted(items, key=lambda x: x[1], reverse=True)[:top_k]\<close>; the sort is stable.\<close>

definition semantic_classify :: "semantic_classifier \<Rightarrow> string \<Rightarrow> string \<Rightarrow> nat \<Rightarrow> scores" where
  "semantic_classify sc text language top_k =
     (if \<not> vectorizer_ok sc then []
      else if text = [] \<or> py_strip text = [] then []
      else if transform_fails sc text then []
      else take top_k (sort_key (\<lambda>entry. - snd entry) (semantic_scores sc text)))"

subsection \<open>The hybrid result\<close>

text \<open>The entries of the configuration that \<^verbatim>\<open>classify\<close> reads, and their defaults
  (config.py).\<close>

record config =
  use_semantic_fallback :: bool
  semantic_threshold :: real
  semantic_weight :: real

definition DEFAULT_CONFIG :: config where
  "DEFAULT_CONFIG =
     \<lparr>use_semantic_fallback = True, semantic_threshold = 0.5, semantic_weight = 0.8\<rparr>"

text \<open>The result when the semantic classifier has an answer: \<open>result\<close> is the first
  entry of its list, \<open>rb\<close> the rule-based intent, confidence and scores.\<close>

definition combine_semantic :: "config \<Rightarrow> string \<times> real \<times> scores \<Rightarrow> string \<times> real \<Rightarrow> string \<times> real" where
  "combine_semantic cfg rb result =
     (let rule_based_intent = fst rb;
          rule_based_scores = snd (snd rb);
          semantic_intent = fst result;
          weighted_semantic_score = snd result * semantic_weight cfg
      in if rule_based_intent \<noteq> [] \<and> rule_based_intent \<noteq> ''unknown'' \<and>
            has_key rule_based_intent rule_based_scores
         then
           let rule_score = (case map_of rule_based_scores rule_based_intent of
                               Some v \<Rightarrow> v | None \<Rightarrow> 0.0);
               combined_score = max rule_score weighted_semantic_score
           in if rule_score * 1.2 < weighted_semantic_score
              then (semantic_intent, min weighted_semantic_score 0.95)
              else (rule_based_intent, min combined_score 0.95)
         else (semantic_intent, min weighted_semantic_score 0.95))"

text \<open>\<open>sem\<close> is \<^verbatim>\<open>self.semantic_classifier\<close>, which is \<^verbatim>\<open>None\<close> when scikit-learn is missing,
  the fallback is switched off or the vectorizer could not be built.\<close>

definition semantic_fallback ::
  "config \<Rightarrow> semantic_classifier option \<Rightarrow> string \<Rightarrow> string \<Rightarrow> string \<times> real \<times> scores \<Rightarrow> string \<times> real"
where
  "semantic_fallback cfg sem text language rb =
     (let rule_based_intent = fst rb;
          rule_based_confidence = fst (snd rb)
      in case sem of
           None \<Rightarrow> (rule_based_intent, rule_based_confidence)
         | Some sc \<Rightarrow>
             if use_semantic_fallback cfg \<and> is_available sc \<and>
                (rule_based_confidence < semantic_threshold cfg \<or> rule_based_intent = ''unknown'')
             then
               (case semantic_classify sc text language 3 of
                  [] \<Rightarrow> (rule_based_intent, rule_based_confidence)
                | result # _ \<Rightarrow> combine_semantic cfg rb result)
             else (rule_based_intent, rule_based_confidence))"

definition classify ::
  "config \<Rightarrow> semantic_classifier option \<Rightarrow> string \<Rightarrow> string \<Rightarrow> call_context option \<Rightarrow> string \<times> real"
where
  "classify cfg sem text language ctx =
     (if text = [] then (''unknown'', 0.0)
      else
        let text_lower = py_lower text;
            intent_scores = context_adjust text_lower ctx (rule_scores text_lower language)
        in semantic_fallback cfg sem text language (rule_based text intent_scores))"

text \<open>The fixed vocabulary of intents.\<close>

definition INTENTS :: "string list" where
  "INTENTS =
     [''confirm_substitution'', ''reject_substitution'', ''request_callback'', ''report_issue'',
      ''confirm_delivery'', ''query_order_status'', ''provide_feedback'', ''query_substitution'',
      ''thank_you'', ''change_delivery'', ''cancel_order'', ''query_products'', ''greeting'',
      ''unknown'']"

section \<open>EntityExtractor: sentiment (entity\_extractor.py)\<close>

text \<open>\<^verbatim>\<open>self.negation_patterns\<close>, searched with \<^verbatim>\<open>re.IGNORECASE\<close> in the lowercased text.\<close>

definition negation_patterns_en :: "rx list" where
  "negation_patterns_en =
    [Seq [WordB, Alt [Lit ''no'', Lit ''not'', Seq [Lit ''don'', Opt (Lit [CHR 0x27]),
       Lit ''t''], Seq [Lit ''doesn'', Opt (Lit [CHR 0x27]), Lit ''t''], Seq [Lit ''didn'',
       Opt (Lit [CHR 0x27]), Lit ''t''], Seq [Lit ''won'', Opt (Lit [CHR 0x27]), Lit ''t''],
       Seq [Lit ''can'', Opt (Lit [CHR 0x27]), Lit ''t''], Seq [Lit ''couldn'',
       Opt (Lit [CHR 0x27]), Lit ''t''], Seq [Lit ''shouldn'', Opt (Lit [CHR 0x27]),
       Lit ''t''], Seq [Lit ''wouldn'', Opt (Lit [CHR 0x27]), Lit ''t''], Seq [Lit ''isn'',
       Opt (Lit [CHR 0x27]), Lit ''t''], Seq [Lit ''aren'', Opt (Lit [CHR 0x27]), Lit ''t''],
       Seq [Lit ''wasn'', Opt (Lit [CHR 0x27]), Lit ''t''], Seq [Lit ''weren'',
       Opt (Lit [CHR 0x27]), Lit ''t'']], WordB],
     Seq [WordB, Alt [Lit ''never'', Lit ''nothing'', Lit ''nobody'', Lit ''nowhere'',
       Lit ''neither'', Lit ''nor''], WordB]]"

definition negation_patterns_fi :: "rx list" where
  "negation_patterns_fi =
    [Seq [WordB, Alt [Lit ''ei'', Lit ''en'', Lit ''et'', Lit ''emme'', Lit ''ette'',
       Lit (''eiv'' @ [CHR 0xE4] @ ''t''), Lit ''ei ole'', Lit ''ei ollut''], WordB],
     Seq [WordB, Alt [Lit ''ei koskaan'', Lit (''ei mit'' @ [CHR 0xE4] @ [CHR 0xE4] @ ''n''),
       Lit ''ei kukaan''], WordB]]"

definition negation_patterns_sv :: "rx list" where
  "negation_patterns_sv =
    [Seq [WordB, Alt [Lit ''inte'', Lit ''ej'', Lit ''aldrig'', Lit ''ingenting'',
       Lit ''ingen''], WordB],
     Seq [WordB, Alt [Lit ([CHR 0xE4] @ ''r inte''), Lit ''var inte'', Lit ''skulle inte''],
       WordB]]"

definition negation_patterns :: "(string \<times> rx list) list" where
  "negation_patterns =
     [(''en'', negation_patterns_en), (''fi'', negation_patterns_fi), (''sv'', negation_patterns_sv)]"


definition extractor_has_negation :: "string \<Rightarrow> string \<Rightarrow> bool" where
  "extractor_has_negation text language =
     py_any (\<lambda>pattern. re_search True pattern (py_lower text)) (lang_get negation_patterns language)"

text \<open>The word and phrase lists of \<^verbatim>\<open>_extract_sentiment_patterns\<close>.\<close>

definition positive_words_en :: "string list" where
  "positive_words_en =
     [''yes'', ''yeah'', ''yep'', ''good'', ''great'', ''excellent'', ''perfect'',
      ''wonderful'', ''amazing'', ''thanks'', ''thank you'', ''thank'', ''appreciate'',
      ''agree'', ''agreed'', ''accept'', ''accepted'', ''fine'', ''ok'', ''okay'',
      ''sure'', ''love'', ''liked'', ''happy'', ''pleased'', ''satisfied'', ''received'',
      ''everything'', ''all good'', ''works'', ''sounds good'', ''please send'',
      ''please do'', ''go ahead'', ''proceed'', ''that works'', ''sounds good'',
      ''i'll take'', ''i will take'', ''i want'', ''i'd like'', ''i would like'',
      ''send it'', ''send me'', ''give me'']"

definition positive_words_fi :: "string list" where
  "positive_words_fi =
     [''kyll'' @ [CHR 0xE4], ''joo'', ''hyv'' @ [CHR 0xE4], ''erinomainen'', ''kiitos'',
      ''sopii'', ''okei'', ''hyv'' @ [CHR 0xE4] @ ''ksyn'']"

definition positive_words_sv :: "string list" where
  "positive_words_sv =
     [''ja'', ''bra'', ''utm'' @ [CHR 0xE4] @ ''rkt'', ''tack'', ''okej'', ''acceptera'',
      ''godk'' @ [CHR 0xE4] @ ''nd'']"

definition positive_words :: "(string \<times> string list) list" where
  "positive_words =
     [(''en'', positive_words_en), (''fi'', positive_words_fi), (''sv'', positive_words_sv)]"

definition negative_words_en :: "string list" where
  "negative_words_en =
     [''no'', ''nope'', ''nah'', ''bad'', ''terrible'', ''awful'', ''horrible'', ''wrong'',
      ''missing'', ''problem'', ''issue'', ''complaint'', ''reject'', ''refuse'',
      ''decline'', ''don't'', ''won't'', ''can't'', ''disappointed'', ''angry'', ''upset'',
      ''frustrated'', ''unhappy'', ''not interested'', ''not good'']"

definition negative_words_fi :: "string list" where
  "negative_words_fi =
     [''ei'', ''huono'', ''ongelma'', ''valitus'', ''hylk'' @ [CHR 0xE4] @ [CHR 0xE4] @ ''n'',
      ''kielt'' @ [CHR 0xE4] @ ''ydyn'']"

definition negative_words_sv :: "string list" where
  "negative_words_sv =
     [''nej'', ''d'' @ [CHR 0xE5] @ ''lig'', ''problem'', ''klagom'' @ [CHR 0xE5] @ ''l'',
      ''avvisa'']"

definition negative_words :: "(string \<times> string list) list" where
  "negative_words =
     [(''en'', negative_words_en), (''fi'', negative_words_fi), (''sv'', negative_words_sv)]"

definition positive_phrases_en :: "string list" where
  "positive_phrases_en =
     [''i accept'', ''i agree'', ''that works'', ''sounds good'', ''go ahead'', ''all good'',
      ''thank you'', ''please send'', ''please do'', ''send it'', ''send me'', ''give me'',
      ''yes please'', ''yes i'll'', ''yes i will'', ''i'll take'', ''i will take'',
      ''i want'', ''i'd like'', ''i would like'']"

definition positive_phrases_fi :: "string list" where
  "positive_phrases_fi =
     [''sama k'' @ [CHR 0xE4] @ ''y'', ''sopii mulle'',
      ''l'' @ [CHR 0xE4] @ ''het'' @ [CHR 0xE4], ''ota se'']"

definition positive_phrases_sv :: "string list" where
  "positive_phrases_sv =
     [''det fungerar'', ''det l'' @ [CHR 0xE5] @ ''ter bra'', ''skicka'', ''ge mig'',
      ''jag tar'']"

definition positive_phrases :: "(string \<times> string list) list" where
  "positive_phrases =
     [(''en'', positive_phrases_en), (''fi'', positive_phrases_fi), (''sv'', positive_phrases_sv)]"

definition negative_phrases_en :: "string list" where
  "negative_phrases_en =
     [''don't want'', ''don't need'', ''don't like'', ''don't accept'', ''no thanks'',
      ''not interested'']"

definition negative_phrases_fi :: "string list" where
  "negative_phrases_fi =
     [''en halua'', ''ei kiitos'']"

definition negative_phrases_sv :: "string list" where
  "negative_phrases_sv =
     [''vill inte'', ''inte intresserad'']"

definition negative_phrases :: "(string \<times> string list) list" where
  "negative_phrases =
     [(''en'', negative_phrases_en), (''fi'', negative_phrases_fi), (''sv'', negative_phrases_sv)]"


text \<open>The sentiment entity.\<close>

record sentiment =
  polarity :: string
  confidence :: real
  sent_method :: string

text \<open>The number of list entries \<open>w\<close> with \<^verbatim>\<open>re.search(r'\b' + re.escape(w) + r'\b', text_lower)\<close>.\<close>

definition count_words_found :: "string list \<Rightarrow> string \<Rightarrow> nat" where
  "count_words_found ws text_lower =
     length (filter (\<lambda>w. re_search False (word_pattern w) text_lower) ws)"

text \<open>The number of list entries that occur in the text as substrings.\<close>

definition count_phrases_found :: "string list \<Rightarrow> string \<Rightarrow> nat" where
  "count_phrases_found ps text_lower = length (filter (\<lambda>ph. py_in ph text_lower) ps)"

definition question_starts :: "string list" where
  "question_starts =
     [''do you'', ''can you'', ''will you'', ''are you'', ''is it'', ''is there'', ''what'',
      ''when'', ''where'', ''how'', ''why'', ''which'']"

definition is_question :: "string \<Rightarrow> bool" where
  "is_question text_lower =
     (suffix ''?'' (py_strip text_lower) \<or> py_any (\<lambda>q. prefix q text_lower) question_starts)"

definition cancel_words :: "string list" where
  "cancel_words =
     [''cancel'', ''stop'', ''remove'', ''delete'', ''refund'', ''return'', ''reject'',
      ''decline'', ''refuse'']"

definition has_cancel :: "string \<Rightarrow> bool" where
  "has_cancel text_lower = any_in cancel_words text_lower"

text \<open>The pair \<^verbatim>\<open>(positive_count, negative_count)\<close>: words, phrases (worth two each), then
  the negation and the cancel-word rules.\<close>

definition raw_counts :: "string \<Rightarrow> string \<Rightarrow> nat \<times> nat" where
  "raw_counts text_lower language =
     (count_words_found (lang_get positive_words language) text_lower +
        2 * count_phrases_found (lang_get positive_phrases language) text_lower,
      count_words_found (lang_get negative_words language) text_lower +
        2 * count_phrases_found (lang_get negative_phrases language) text_lower)"

definition negation_rule :: "bool \<Rightarrow> nat \<times> nat \<Rightarrow> nat \<times> nat" where
  "negation_rule negation counts =
     (if negation then
        (if 0 < fst counts then (0, snd counts + fst counts)
         else if snd counts = 0 then (fst counts, 1)
         else counts)
      else counts)"

definition cancel_rule :: "bool \<Rightarrow> nat \<times> nat \<Rightarrow> nat \<times> nat" where
  "cancel_rule cancel counts =
     (if cancel \<and> 0 < fst counts then (0, snd counts + fst counts) else counts)"

definition sentiment_counts :: "string \<Rightarrow> string \<Rightarrow> nat \<times> nat" where
  "sentiment_counts text language =
     cancel_rule (has_cancel (py_lower text))
       (negation_rule (extractor_has_negation text language)
          (raw_counts (py_lower text) language))"

definition informational_intents :: "string list" where
  "informational_intents =
     [''request_callback'', ''query_order_status'', ''query_products'', ''query_substitution'']"

definition extract_sentiment_patterns :: "string \<Rightarrow> string \<Rightarrow> string option \<Rightarrow> sentiment" where
  "extract_sentiment_patterns text language detected_intent =
     (let positive_count = fst (sentiment_counts text language);
          negative_count = snd (sentiment_counts text language)
      in if is_question (py_lower text) \<and> \<not> (2 < negative_count \<or> 2 < positive_count)
         then \<lparr>polarity = ''neutral'', confidence = 0.5, sent_method = ''pattern''\<rparr>
         else if (case detected_intent of None \<Rightarrow> False
                  | Some i \<Rightarrow> List.member informational_intents i) \<and>
                 negative_count \<le> 1 \<and> positive_count \<le> 1
         then \<lparr>polarity = ''neutral'', confidence = 0.5, sent_method = ''pattern+context''\<rparr>
         else if detected_intent = Some ''report_issue''
         then \<lparr>polarity = ''negative'',
                confidence = max 0.6 (min (0.4 + real negative_count * 0.15) 0.95),
                sent_method = ''pattern+context''\<rparr>
         else if positive_count < negative_count \<and> 0 < negative_count
         then \<lparr>polarity = ''negative'',
                confidence = min (0.4 + real negative_count * 0.15) 0.95, sent_method = ''pattern''\<rparr>
         else if negative_count < positive_count \<and> 0 < positive_count
         then \<lparr>polarity = ''positive'',
                confidence = min (0.4 + real positive_count * 0.15) 0.95, sent_method = ''pattern''\<rparr>
         else \<lparr>polarity = ''neutral'', confidence = 0.5, sent_method = ''pattern''\<rparr>)"

text \<open>
  TextBlob is an optional library: \<open>None\<close> when it is not installed, otherwise the
  function from a text to its polarity in \<open>[-1, 1]\<close>, or to \<open>None\<close> when the library
  raises (the source catches the exception and goes on without a score).
\<close>

type_synonym textblob = "(string \<Rightarrow> real option) option"

text \<open>\<^verbatim>\<open>textblob_score\<close> after the three overrides; \<open>None\<close> when no score is available.\<close>

definition textblob_score :: "textblob \<Rightarrow> string \<Rightarrow> string \<Rightarrow> string option \<Rightarrow> real option" where
  "textblob_score tb text language detected_intent =
     (case tb of
        None \<Rightarrow> None
      | Some blob \<Rightarrow>
          if language \<noteq> ''en'' then None
          else (case blob text of
                  None \<Rightarrow> None
                | Some raw \<Rightarrow>
                    let s1 = (if is_question (py_lower text) then 0.0 else raw);
                        s2 = (if has_cancel (py_lower text) \<and> 0 < s1 then - 0.3 else s1);
                        s3 = (if detected_intent = Some ''report_issue'' \<and> - 0.2 < s2
                              then - 0.4 else s2)
                    in Some s3))"

definition extract_sentiment :: "textblob \<Rightarrow> string \<Rightarrow> string \<Rightarrow> string option \<Rightarrow> sentiment" where
  "extract_sentiment tb text language detected_intent =
     (let negation = extractor_has_negation text language;
          pattern_result = extract_sentiment_patterns text language detected_intent
      in case textblob_score tb text language detected_intent of
           None \<Rightarrow> pattern_result
         | Some score \<Rightarrow>
             let textblob_polarity0 =
                   (if 0.05 < score then ''positive''
                    else if score < - 0.05 then ''negative'' else ''neutral'');
                 textblob_confidence0 =
                   (if 0.05 < score then min \<bar>score\<bar> 1.0
                    else if score < - 0.05 then min \<bar>score\<bar> 1.0 else 0.3);
                 flip = (negation \<and> textblob_polarity0 = ''positive'');
                 textblob_polarity = (if flip then ''negative'' else textblob_polarity0);
                 textblob_confidence =
                   (if flip then min (textblob_confidence0 + 0.2) 1.0 else textblob_confidence0)
             in if polarity pattern_result = textblob_polarity
                then \<lparr>polarity = textblob_polarity,
                       confidence =
                         min ((textblob_confidence * 0.6 + confidence pattern_result * 0.4) * 1.2) 1.0,
                       sent_method = ''textblob+pattern''\<rparr>
                else if 0.6 < confidence pattern_result
                then \<lparr>polarity = polarity pattern_result,
                       confidence = confidence pattern_result,
                       sent_method = ''textblob+pattern''\<rparr>
                else \<lparr>polarity = textblob_polarity, confidence = textblob_confidence,
                       sent_method = ''textblob+pattern''\<rparr>)"

section \<open>EntityExtractor: products (entity\_extractor.py)\<close>

text \<open>An entry of the catalog after \<^verbatim>\<open>_normalize_catalog\<close>, and a product entity of the
  result. The GTIN is \<open>None\<close> where the source has \<^verbatim>\<open>None\<close>.\<close>

record product =
  product_name :: string
  product_gtin :: "string option"
  name_variants :: "string list"

record product_entity =
  name :: string
  gtin :: "string option"
  conf :: real

text \<open>\<^verbatim>\<open>r'\b([A-Z][a-z]+(?:\s+[A-Z][a-z]+)*)\b'\<close>, used without flags.\<close>

definition capitalized_pattern :: rx where
  "capitalized_pattern =
     Seq [WordB, Cls [Range (CHR ''A'') (CHR ''Z'')], Plus (Cls [Range (CHR ''a'') (CHR ''z'')]),
          Star (Seq [Plus (Cls [Spaces]), Cls [Range (CHR ''A'') (CHR ''Z'')],
                     Plus (Cls [Range (CHR ''a'') (CHR ''z'')])]),
          WordB]"

text \<open>\<^verbatim>\<open>r'"([^"]+)"'\<close>: the group is the match without its two quotation marks.\<close>

definition quoted_pattern :: rx where
  "quoted_pattern = Seq [Lit [CHR 0x22], Plus (NotCls [Single (CHR 0x22)]), Lit [CHR 0x22]]"

definition find_quoted :: "string \<Rightarrow> string list" where
  "find_quoted text = map (\<lambda>m. butlast (tl m)) (findall False quoted_pattern text)"

text \<open>The branch for an empty catalog: up to three capitalised word groups of at most
  four words, returned as they are found.\<close>

definition products_without_catalog :: "string \<Rightarrow> product_entity list" where
  "products_without_catalog text =
     map (\<lambda>word. \<lparr>name = word, gtin = None, conf = 0.3\<rparr>)
       (filter (\<lambda>word. py_split_len word \<le> 4) (take 3 (findall False capitalized_pattern text)))"

text \<open>The entities that one catalog entry contributes: the name, else the first variant
  that occurs in the text, and after a variant or without one the word-level match.\<close>

definition catalog_matches :: "string \<Rightarrow> product \<Rightarrow> product_entity list" where
  "catalog_matches text_lower p =
     (let pname = py_lower (product_name p);
          product_words = py_split pname
      in if pname \<noteq> [] \<and> py_in pname text_lower
         then [\<lparr>name = product_name p, gtin = product_gtin p, conf = 0.8\<rparr>]
         else
           (if py_any (\<lambda>variant. py_in (py_lower variant) text_lower) (name_variants p)
            then [\<lparr>name = product_name p, gtin = product_gtin p, conf = 0.7\<rparr>] else []) @
           (if 1 < length product_words \<and>
               real (length product_words) * 0.6
                 \<le> real (length (filter (\<lambda>word. py_in word text_lower) product_words))
            then [\<lparr>name = product_name p, gtin = product_gtin p, conf = 0.5\<rparr>] else []))"

text \<open>
  rapidfuzz is an optional library: \<open>None\<close> when it is not installed. \<open>process_extract\<close> is
  \<^verbatim>\<open>process.extract(query, choices, limit=n, scorer=fuzz.partial_ratio)\<close> and
  \<open>process_extract_one\<close>
  is \<^verbatim>\<open>process.extractOne(query, choices, scorer=fuzz.ratio)\<close>; both give names with
  scores from 0 to 100.
\<close>

record fuzzy_lib =
  process_extract :: "string \<Rightarrow> string list \<Rightarrow> nat \<Rightarrow> (string \<times> real) list"
  process_extract_one :: "string \<Rightarrow> string list \<Rightarrow> (string \<times> real) option"

definition fuzzy_threshold :: real where
  "fuzzy_threshold = 0.7"

definition max_fuzzy_results :: nat where
  "max_fuzzy_results = 5"

text \<open>The first catalog entry of a given name, as an entity with the fuzzy score.\<close>

definition fuzzy_entity :: "product list \<Rightarrow> string \<times> real \<Rightarrow> product_entity list" where
  "fuzzy_entity catalog hit =
     (if fuzzy_threshold * 100 \<le> snd hit
      then (case filter (\<lambda>p. product_name p = fst hit) catalog of
              [] \<Rightarrow> []
            | p # _ \<Rightarrow> [\<lparr>name = product_name p, gtin = product_gtin p, conf = snd hit / 100.0\<rparr>])
      else [])"

definition fuzzy_match_products :: "fuzzy_lib \<Rightarrow> string \<Rightarrow> product list \<Rightarrow> product_entity list" where
  "fuzzy_match_products lib text_lower catalog =
     (if catalog = [] then []
      else
        let potential_names = find_quoted text_lower @ findall False capitalized_pattern text_lower;
            product_names = filter (\<lambda>n. n \<noteq> []) (map product_name catalog)
        in if potential_names = []
           then (if product_names = [] then []
                 else concat (map (fuzzy_entity catalog)
                                (process_extract lib text_lower product_names max_fuzzy_results)))
           else concat (map (\<lambda>potential_name.
                               if product_names = [] then []
                               else (case process_extract_one lib potential_name product_names of
                                       None \<Rightarrow> []
                                     | Some hit \<Rightarrow> fuzzy_entity catalog hit))
                          (take 3 potential_names)))"

text \<open>The fuzzy matches whose names are not yet among the products; the set of known
  names is taken once, before the loop.\<close>

definition add_fuzzy :: "fuzzy_lib option \<Rightarrow> string \<Rightarrow> product list \<Rightarrow> product_entity list \<Rightarrow> product_entity list" where
  "add_fuzzy fuzzy text_lower catalog products =
     (case fuzzy of
        None \<Rightarrow> products
      | Some lib \<Rightarrow>
          if length products < 3
          then products @
               filter (\<lambda>fp. \<not> List.member (map (\<lambda>p. py_lower (name p)) products) (py_lower (name fp)))
                 (fuzzy_match_products lib text_lower catalog)
          else products)"

text \<open>The first product that matches the proposed substitute gets its confidence
  multiplied by 1.3 (at most 1.0) and moves to the front.\<close>

fun boost_first :: "string \<Rightarrow> product_entity list \<Rightarrow> product_entity list \<Rightarrow> product_entity list" where
  "boost_first proposed_lower seen [] = seen"
| "boost_first proposed_lower seen (p # ps) =
     (if py_lower (name p) = proposed_lower \<or> py_in proposed_lower (py_lower (name p))
      then p\<lparr>conf := min 1.0 (conf p * 1.3)\<rparr> # seen @ ps
      else boost_first proposed_lower (seen @ [p]) ps)"

definition boost_proposed :: "call_context option \<Rightarrow> product_entity list \<Rightarrow> product_entity list" where
  "boost_proposed ctx products =
     (case ctx of
        None \<Rightarrow> products
      | Some c \<Rightarrow>
          (case proposed_substitute c of
             None \<Rightarrow> products
           | Some proposed \<Rightarrow>
               if proposed = [] then products
               else boost_first (py_lower proposed) [] products))"

text \<open>\<^verbatim>\<open>Remove duplicates\<close>: the first product of every key \<^verbatim>\<open>(gtin, name)\<close> stays.\<close>

fun unique_products :: "(string option \<times> string) list \<Rightarrow> product_entity list \<Rightarrow> product_entity list" where
  "unique_products seen [] = []"
| "unique_products seen (p # ps) =
     (if List.member seen (gtin p, name p) then unique_products seen ps
      else p # unique_products ((gtin p, name p) # seen) ps)"

definition extract_products ::
  "product list \<Rightarrow> fuzzy_lib option \<Rightarrow> string \<Rightarrow> string \<Rightarrow> call_context option \<Rightarrow> product_entity list"
where
  "extract_products catalog fuzzy text language ctx =
     (if catalog = [] then products_without_catalog text
      else
        let text_lower = py_lower text;
            products = concat (map (catalog_matches text_lower) catalog);
            products1 = add_fuzzy fuzzy text_lower catalog products;
            products2 = boost_proposed ctx products1
        in take max_fuzzy_results (unique_products [] products2))"

section \<open>Notions of the stated properties\<close>

text \<open>\<^verbatim>\<open>all(P(x) for x in xs)\<close>\<close>

primrec py_all :: "('a \<Rightarrow> bool) \<Rightarrow> 'a list \<Rightarrow> bool" where
  "py_all P [] = True"
| "py_all P (x # xs) = (P x \<and> py_all P xs)"

text \<open>The number of match occurrences of each pattern of a list.\<close>

definition match_counts :: "rx list \<Rightarrow> string \<Rightarrow> nat list" where
  "match_counts patterns text_lower = map (\<lambda>pattern. findall_len True pattern text_lower) patterns"

text \<open>The score as the specification words it: 0.3 for each match occurrence, and one
  bonus of 0.5 if any pattern of the intent matches at all.\<close>

definition spec_pattern_score :: "rx list \<Rightarrow> string \<Rightarrow> real" where
  "spec_pattern_score patterns text_lower =
     0.3 * real (sum_list (match_counts patterns text_lower)) +
     (if 0 < sum_list (match_counts patterns text_lower) then 0.5 else 0)"

text \<open>No pattern of any intent matches the text, for the pattern lists of the language.\<close>

definition no_pattern_matches :: "string \<Rightarrow> string \<Rightarrow> bool" where
  "no_pattern_matches text_lower language =
     py_all (\<lambda>entry. py_all (\<lambda>n. n = 0) (match_counts (lang_get (snd entry) language) text_lower))
       INTENT_PATTERNS"

text \<open>The conversation stage puts a score of its own into the dictionary: a bare yes or
  no before the order, an issue phrase after the delivery.\<close>

definition stage_seeds :: "string \<Rightarrow> call_context option \<Rightarrow> bool" where
  "stage_seeds text_lower ctx =
     ((stage_of ctx = Some ''pre_order_substitution'' \<and>
       (List.member [''yes'', ''yeah'', ''yep'', ''ok'', ''okay'', ''sure''] (py_strip text_lower) \<or>
        List.member [''no'', ''nope'', ''nah''] (py_strip text_lower))) \<or>
      (stage_of ctx = Some ''post_delivery_investigation'' \<and> any_in issue_indicators text_lower))"

text \<open>The semantic classifier is not consulted: there is none, it is switched off, or
  it is not available.\<close>

definition semantic_unavailable :: "config \<Rightarrow> semantic_classifier option \<Rightarrow> bool" where
  "semantic_unavailable cfg sem =
     (case sem of None \<Rightarrow> True
      | Some sc \<Rightarrow> \<not> use_semantic_fallback cfg \<or> \<not> is_available sc)"

text \<open>The sentiment signal is weak: neither count exceeds two.\<close>

definition weak_signal :: "string \<Rightarrow> string \<Rightarrow> bool" where
  "weak_signal text language =
     (fst (sentiment_counts text language) \<le> 2 \<and> snd (sentiment_counts text language) \<le> 2)"

text \<open>The statistical score takes part in the sentiment of a call.\<close>

definition textblob_in_use :: "textblob \<Rightarrow> string \<Rightarrow> string \<Rightarrow> bool" where
  "textblob_in_use tb text language =
     (case tb of None \<Rightarrow> False | Some blob \<Rightarrow> language = ''en'' \<and> blob text \<noteq> None)"

text \<open>No two entities of a product list share the key \<^verbatim>\<open>(gtin, name)\<close>.\<close>

definition product_keys :: "product_entity list \<Rightarrow> (string option \<times> string) list" where
  "product_keys ps = map (\<lambda>p. (gtin p, name p)) ps"

text \<open>Two contexts that carry a conversation stage and nothing else.\<close>

definition pre_order_context :: call_context where
  "pre_order_context =
     \<lparr>conversation_stage = Some ''pre_order_substitution'', proposed_solution = False,
      proposed_substitute = None,
      context_str = ''{'conversation_stage': 'pre_order_substitution'}''\<rparr>"

definition post_delivery_context :: call_context where
  "post_delivery_context =
     \<lparr>conversation_stage = Some ''post_delivery_investigation'', proposed_solution = False,
      proposed_substitute = None,
      context_str = ''{'conversation_stage': 'post_delivery_investigation'}''\<rparr>"

section \<open>Evaluation\<close>

text \<open>The character tables at the characters of the sample texts, as rewrite rules.\<close>

lemma cp_chars:
  "cp (CHR ''a'') = 97"
  "cp (CHR ''b'') = 98"
  "cp (CHR ''c'') = 99"
  "cp (CHR ''d'') = 100"
  "cp (CHR ''e'') = 101"
  "cp (CHR ''f'') = 102"
  "cp (CHR ''g'') = 103"
  "cp (CHR ''h'') = 104"
  "cp (CHR ''i'') = 105"
  "cp (CHR ''j'') = 106"
  "cp (CHR ''k'') = 107"
  "cp (CHR ''l'') = 108"
  "cp (CHR ''m'') = 109"
  "cp (CHR ''n'') = 110"
  "cp (CHR ''o'') = 111"
  "cp (CHR ''p'') = 112"
  "cp (CHR ''q'') = 113"
  "cp (CHR ''r'') = 114"
  "cp (CHR ''s'') = 115"
  "cp (CHR ''t'') = 116"
  "cp (CHR ''u'') = 117"
  "cp (CHR ''v'') = 118"
  "cp (CHR ''w'') = 119"
  "cp (CHR ''x'') = 120"
  "cp (CHR ''y'') = 121"
  "cp (CHR ''z'') = 122"
  "cp (CHR ''A'') = 65"
  "cp (CHR ''B'') = 66"
  "cp (CHR ''C'') = 67"
  "cp (CHR ''D'') = 68"
  "cp (CHR ''E'') = 69"
  "cp (CHR ''F'') = 70"
  "cp (CHR ''G'') = 71"
  "cp (CHR ''H'') = 72"
  "cp (CHR ''I'') = 73"
  "cp (CHR ''J'') = 74"
  "cp (CHR ''K'') = 75"
  "cp (CHR ''L'') = 76"
  "cp (CHR ''M'') = 77"
  "cp (CHR ''N'') = 78"
  "cp (CHR ''O'') = 79"
  "cp (CHR ''P'') = 80"
  "cp (CHR ''Q'') = 81"
  "cp (CHR ''R'') = 82"
  "cp (CHR ''S'') = 83"
  "cp (CHR ''T'') = 84"
  "cp (CHR ''U'') = 85"
  "cp (CHR ''V'') = 86"
  "cp (CHR ''W'') = 87"
  "cp (CHR ''X'') = 88"
  "cp (CHR ''Y'') = 89"
  "cp (CHR ''Z'') = 90"
  "cp (CHR ''0'') = 48"
  "cp (CHR ''1'') = 49"
  "cp (CHR ''2'') = 50"
  "cp (CHR ''3'') = 51"
  "cp (CHR ''4'') = 52"
  "cp (CHR ''5'') = 53"
  "cp (CHR ''6'') = 54"
  "cp (CHR ''7'') = 55"
  "cp (CHR ''8'') = 56"
  "cp (CHR ''9'') = 57"
  "cp (CHR '' '') = 32"
  "cp (CHR ''?'') = 63"
  "cp (CHR '','') = 44"
  "cp (CHR ''.'') = 46"
  "cp (CHR ''-'') = 45"
  "cp (CHR ''#'') = 35"
  "cp (CHR ''!'') = 33"
  "cp (CHR 0x27) = 39"
  by (simp_all add: cp_def)

lemma is_word_chars:
  "is_word (CHR ''a'') = True"
  "is_word (CHR ''b'') = True"
  "is_word (CHR ''c'') = True"
  "is_word (CHR ''d'') = True"
  "is_word (CHR ''e'') = True"
  "is_word (CHR ''f'') = True"
  "is_word (CHR ''g'') = True"
  "is_word (CHR ''h'') = True"
  "is_word (CHR ''i'') = True"
  "is_word (CHR ''j'') = True"
  "is_word (CHR ''k'') = True"
  "is_word (CHR ''l'') = True"
  "is_word (CHR ''m'') = True"
  "is_word (CHR ''n'') = True"
  "is_word (CHR ''o'') = True"
  "is_word (CHR ''p'') = True"
  "is_word (CHR ''q'') = True"
  "is_word (CHR ''r'') = True"
  "is_word (CHR ''s'') = True"
  "is_word (CHR ''t'') = True"
  "is_word (CHR ''u'') = True"
  "is_word (CHR ''v'') = True"
  "is_word (CHR ''w'') = True"
  "is_word (CHR ''x'') = True"
  "is_word (CHR ''y'') = True"
  "is_word (CHR ''z'') = True"
  "is_word (CHR ''A'') = True"
  "is_word (CHR ''B'') = True"
  "is_word (CHR ''C'') = True"
  "is_word (CHR ''D'') = True"
  "is_word (CHR ''E'') = True"
  "is_word (CHR ''F'') = True"
  "is_word (CHR ''G'') = True"
  "is_word (CHR ''H'') = True"
  "is_word (CHR ''I'') = True"
  "is_word (CHR ''J'') = True"
  "is_word (CHR ''K'') = True"
  "is_word (CHR ''L'') = True"
  "is_word (CHR ''M'') = True"
  "is_word (CHR ''N'') = True"
  "is_word (CHR ''O'') = True"
  "is_word (CHR ''P'') = True"
  "is_word (CHR ''Q'') = True"
  "is_word (CHR ''R'') = True"
  "is_word (CHR ''S'') = True"
  "is_word (CHR ''T'') = True"
  "is_word (CHR ''U'') = True"
  "is_word (CHR ''V'') = True"
  "is_word (CHR ''W'') = True"
  "is_word (CHR ''X'') = True"
  "is_word (CHR ''Y'') = True"
  "is_word (CHR ''Z'') = True"
  "is_word (CHR ''0'') = True"
  "is_word (CHR ''1'') = True"
  "is_word (CHR ''2'') = True"
  "is_word (CHR ''3'') = True"
  "is_word (CHR ''4'') = True"
  "is_word (CHR ''5'') = True"
  "is_word (CHR ''6'') = True"
  "is_word (CHR ''7'') = True"
  "is_word (CHR ''8'') = True"
  "is_word (CHR ''9'') = True"
  "is_word (CHR '' '') = False"
  "is_word (CHR ''?'') = False"
  "is_word (CHR '','') = False"
  "is_word (CHR ''.'') = False"
  "is_word (CHR ''-'') = False"
  "is_word (CHR ''#'') = False"
  "is_word (CHR ''!'') = False"
  "is_word (CHR 0x27) = False"
  by (simp_all add: is_word_def cp_chars)

lemma is_space_chars:
  "is_space (CHR ''a'') = False"
  "is_space (CHR ''b'') = False"
  "is_space (CHR ''c'') = False"
  "is_space (CHR ''d'') = False"
  "is_space (CHR ''e'') = False"
  "is_space (CHR ''f'') = False"
  "is_space (CHR ''g'') = False"
  "is_space (CHR ''h'') = False"
  "is_space (CHR ''i'') = False"
  "is_space (CHR ''j'') = False"
  "is_space (CHR ''k'') = False"
  "is_space (CHR ''l'') = False"
  "is_space (CHR ''m'') = False"
  "is_space (CHR ''n'') = False"
  "is_space (CHR ''o'') = False"
  "is_space (CHR ''p'') = False"
  "is_space (CHR ''q'') = False"
  "is_space (CHR ''r'') = False"
  "is_space (CHR ''s'') = False"
  "is_space (CHR ''t'') = False"
  "is_space (CHR ''u'') = False"
  "is_space (CHR ''v'') = False"
  "is_space (CHR ''w'') = False"
  "is_space (CHR ''x'') = False"
  "is_space (CHR ''y'') = False"
  "is_space (CHR ''z'') = False"
  "is_space (CHR ''A'') = False"
  "is_space (CHR ''B'') = False"
  "is_space (CHR ''C'') = False"
  "is_space (CHR ''D'') = False"
  "is_space (CHR ''E'') = False"
  "is_space (CHR ''F'') = False"
  "is_space (CHR ''G'') = False"
  "is_space (CHR ''H'') = False"
  "is_space (CHR ''I'') = False"
  "is_space (CHR ''J'') = False"
  "is_space (CHR ''K'') = False"
  "is_space (CHR ''L'') = False"
  "is_space (CHR ''M'') = False"
  "is_space (CHR ''N'') = False"
  "is_space (CHR ''O'') = False"
  "is_space (CHR ''P'') = False"
  "is_space (CHR ''Q'') = False"
  "is_space (CHR ''R'') = False"
  "is_space (CHR ''S'') = False"
  "is_space (CHR ''T'') = False"
  "is_space (CHR ''U'') = False"
  "is_space (CHR ''V'') = False"
  "is_space (CHR ''W'') = False"
  "is_space (CHR ''X'') = False"
  "is_space (CHR ''Y'') = False"
  "is_space (CHR ''Z'') = False"
  "is_space (CHR ''0'') = False"
  "is_space (CHR ''1'') = False"
  "is_space (CHR ''2'') = False"
  "is_space (CHR ''3'') = False"
  "is_space (CHR ''4'') = False"
  "is_space (CHR ''5'') = False"
  "is_space (CHR ''6'') = False"
  "is_space (CHR ''7'') = False"
  "is_space (CHR ''8'') = False"
  "is_space (CHR ''9'') = False"
  "is_space (CHR '' '') = True"
  "is_space (CHR ''?'') = False"
  "is_space (CHR '','') = False"
  "is_space (CHR ''.'') = False"
  "is_space (CHR ''-'') = False"
  "is_space (CHR ''#'') = False"
  "is_space (CHR ''!'') = False"
  "is_space (CHR 0x27) = False"
  by (simp_all add: is_space_def cp_chars)

lemma is_digit_chars:
  "is_digit (CHR ''a'') = False"
  "is_digit (CHR ''b'') = False"
  "is_digit (CHR ''c'') = False"
  "is_digit (CHR ''d'') = False"
  "is_digit (CHR ''e'') = False"
  "is_digit (CHR ''f'') = False"
  "is_digit (CHR ''g'') = False"
  "is_digit (CHR ''h'') = False"
  "is_digit (CHR ''i'') = False"
  "is_digit (CHR ''j'') = False"
  "is_digit (CHR ''k'') = False"
  "is_digit (CHR ''l'') = False"
  "is_digit (CHR ''m'') = False"
  "is_digit (CHR ''n'') = False"
  "is_digit (CHR ''o'') = False"
  "is_digit (CHR ''p'') = False"
  "is_digit (CHR ''q'') = False"
  "is_digit (CHR ''r'') = False"
  "is_digit (CHR ''s'') = False"
  "is_digit (CHR ''t'') = False"
  "is_digit (CHR ''u'') = False"
  "is_digit (CHR ''v'') = False"
  "is_digit (CHR ''w'') = False"
  "is_digit (CHR ''x'') = False"
  "is_digit (CHR ''y'') = False"
  "is_digit (CHR ''z'') = False"
  "is_digit (CHR ''A'') = False"
  "is_digit (CHR ''B'') = False"
  "is_digit (CHR ''C'') = False"
  "is_digit (CHR ''D'') = False"
  "is_digit (CHR ''E'') = False"
  "is_digit (CHR ''F'') = False"
  "is_digit (CHR ''G'') = False"
  "is_digit (CHR ''H'') = False"
  "is_digit (CHR ''I'') = False"
  "is_digit (CHR ''J'') = False"
  "is_digit (CHR ''K'') = False"
  "is_digit (CHR ''L'') = False"
  "is_digit (CHR ''M'') = False"
  "is_digit (CHR ''N'') = False"
  "is_digit (CHR ''O'') = False"
  "is_digit (CHR ''P'') = False"
  "is_digit (CHR ''Q'') = False"
  "is_digit (CHR ''R'') = False"
  "is_digit (CHR ''S'') = False"
  "is_digit (CHR ''T'') = False"
  "is_digit (CHR ''U'') = False"
  "is_digit (CHR ''V'') = False"
  "is_digit (CHR ''W'') = False"
  "is_digit (CHR ''X'') = False"
  "is_digit (CHR ''Y'') = False"
  "is_digit (CHR ''Z'') = False"
  "is_digit (CHR ''0'') = True"
  "is_digit (CHR ''1'') = True"
  "is_digit (CHR ''2'') = True"
  "is_digit (CHR ''3'') = True"
  "is_digit (CHR ''4'') = True"
  "is_digit (CHR ''5'') = True"
  "is_digit (CHR ''6'') = True"
  "is_digit (CHR ''7'') = True"
  "is_digit (CHR ''8'') = True"
  "is_digit (CHR ''9'') = True"
  "is_digit (CHR '' '') = False"
  "is_digit (CHR ''?'') = False"
  "is_digit (CHR '','') = False"
  "is_digit (CHR ''.'') = False"
  "is_digit (CHR ''-'') = False"
  "is_digit (CHR ''#'') = False"
  "is_digit (CHR ''!'') = False"
  "is_digit (CHR 0x27) = False"
  by (simp_all add: is_digit_def cp_chars)

lemma char_of_cp: "cp d = n \<Longrightarrow> (char_of n = d) = True"
  by (auto simp add: cp_def)

lemma py_lower_chars:
  "py_lower_char (CHR ''a'') = CHR ''a''"
  "py_lower_char (CHR ''b'') = CHR ''b''"
  "py_lower_char (CHR ''c'') = CHR ''c''"
  "py_lower_char (CHR ''d'') = CHR ''d''"
  "py_lower_char (CHR ''e'') = CHR ''e''"
  "py_lower_char (CHR ''f'') = CHR ''f''"
  "py_lower_char (CHR ''g'') = CHR ''g''"
  "py_lower_char (CHR ''h'') = CHR ''h''"
  "py_lower_char (CHR ''i'') = CHR ''i''"
  "py_lower_char (CHR ''j'') = CHR ''j''"
  "py_lower_char (CHR ''k'') = CHR ''k''"
  "py_lower_char (CHR ''l'') = CHR ''l''"
  "py_lower_char (CHR ''m'') = CHR ''m''"
  "py_lower_char (CHR ''n'') = CHR ''n''"
  "py_lower_char (CHR ''o'') = CHR ''o''"
  "py_lower_char (CHR ''p'') = CHR ''p''"
  "py_lower_char (CHR ''q'') = CHR ''q''"
  "py_lower_char (CHR ''r'') = CHR ''r''"
  "py_lower_char (CHR ''s'') = CHR ''s''"
  "py_lower_char (CHR ''t'') = CHR ''t''"
  "py_lower_char (CHR ''u'') = CHR ''u''"
  "py_lower_char (CHR ''v'') = CHR ''v''"
  "py_lower_char (CHR ''w'') = CHR ''w''"
  "py_lower_char (CHR ''x'') = CHR ''x''"
  "py_lower_char (CHR ''y'') = CHR ''y''"
  "py_lower_char (CHR ''z'') = CHR ''z''"
  "py_lower_char (CHR ''A'') = CHR ''a''"
  "py_lower_char (CHR ''B'') = CHR ''b''"
  "py_lower_char (CHR ''C'') = CHR ''c''"
  "py_lower_char (CHR ''D'') = CHR ''d''"
  "py_lower_char (CHR ''E'') = CHR ''e''"
  "py_lower_char (CHR ''F'') = CHR ''f''"
  "py_lower_char (CHR ''G'') = CHR ''g''"
  "py_lower_char (CHR ''H'') = CHR ''h''"
  "py_lower_char (CHR ''I'') = CHR ''i''"
  "py_lower_char (CHR ''J'') = CHR ''j''"
  "py_lower_char (CHR ''K'') = CHR ''k''"
  "py_lower_char (CHR ''L'') = CHR ''l''"
  "py_lower_char (CHR ''M'') = CHR ''m''"
  "py_lower_char (CHR ''N'') = CHR ''n''"
  "py_lower_char (CHR ''O'') = CHR ''o''"
  "py_lower_char (CHR ''P'') = CHR ''p''"
  "py_lower_char (CHR ''Q'') = CHR ''q''"
  "py_lower_char (CHR ''R'') = CHR ''r''"
  "py_lower_char (CHR ''S'') = CHR ''s''"
  "py_lower_char (CHR ''T'') = CHR ''t''"
  "py_lower_char (CHR ''U'') = CHR ''u''"
  "py_lower_char (CHR ''V'') = CHR ''v''"
  "py_lower_char (CHR ''W'') = CHR ''w''"
  "py_lower_char (CHR ''X'') = CHR ''x''"
  "py_lower_char (CHR ''Y'') = CHR ''y''"
  "py_lower_char (CHR ''Z'') = CHR ''z''"
  "py_lower_char (CHR ''0'') = CHR ''0''"
  "py_lower_char (CHR ''1'') = CHR ''1''"
  "py_lower_char (CHR ''2'') = CHR ''2''"
  "py_lower_char (CHR ''3'') = CHR ''3''"
  "py_lower_char (CHR ''4'') = CHR ''4''"
  "py_lower_char (CHR ''5'') = CHR ''5''"
  "py_lower_char (CHR ''6'') = CHR ''6''"
  "py_lower_char (CHR ''7'') = CHR ''7''"
  "py_lower_char (CHR ''8'') = CHR ''8''"
  "py_lower_char (CHR ''9'') = CHR ''9''"
  "py_lower_char (CHR '' '') = CHR '' ''"
  "py_lower_char (CHR ''?'') = CHR ''?''"
  "py_lower_char (CHR '','') = CHR '',''"
  "py_lower_char (CHR ''.'') = CHR ''.''"
  "py_lower_char (CHR ''-'') = CHR ''-''"
  "py_lower_char (CHR ''#'') = CHR ''#''"
  "py_lower_char (CHR ''!'') = CHR ''!''"
  "py_lower_char (CHR 0x27) = CHR 0x27"
  by (simp_all add: py_lower_char_def cp_chars char_of_cp)

lemmas rx_eval =
  cp_chars is_word_chars is_space_chars is_digit_chars py_lower_chars
  py_lower_def char_eq_def at_word_boundary_def match_len_def findall_len_def
  re_search_def re_sub_def findall_def py_split_len_def py_split_def py_strip_def

lemmas in_eval = any_in_def py_in_def sublist_Cons_right

lemma max_item_mem: "max_item best xs \<in> set (best # xs)"
  by (induction xs arbitrary: best) auto

lemma arg_max_mem: "items \<noteq> [] \<Longrightarrow> arg_max items \<in> set items"
  using max_item_mem [of "hd items" "tl items"] by (simp add: arg_max_def)

lemma search_from_count: "search_from ic r p s = (0 < count_from ic r p s 0)"
  by (induction s arbitrary: p) (auto split: option.splits)

lemma re_search_findall: "re_search ic r text = (0 < findall_len ic r text)"
  by (simp add: re_search_def findall_len_def search_from_count)

section \<open>The language detector\<close>

lemma detect_scores_keys: "map fst (detect_scores text) = [''en'', ''fi'', ''sv'']"
  by (simp add: detect_scores_def Let_def)

lemma arg_max_detect_scores: "fst (arg_max (detect_scores text)) \<in> {''en'', ''fi'', ''sv''}"
proof -
  have "detect_scores text \<noteq> []"
    using detect_scores_keys [of "text"] by auto
  then have "arg_max (detect_scores text) \<in> set (detect_scores text)"
    by (rule arg_max_mem)
  then have "fst (arg_max (detect_scores text)) \<in> set (map fst (detect_scores text))"
    by (metis in_set_zipE list.set_map imageI)
  then show ?thesis
    by (simp add: detect_scores_keys)
qed

text \<open>
  C8. For every text, \<open>detect\<close> returns one of the codes \<^verbatim>\<open>en\<close>, \<^verbatim>\<open>fi\<close>, \<^verbatim>\<open>sv\<close>; it
  returns \<^verbatim>\<open>en\<close> on the empty text, and \<^verbatim>\<open>en\<close> whenever the score of the arg-max
  language, normalised by the number of words, is below the threshold 0.1. The result
  depends on the text alone: \<open>detect\<close> is a function of it.
\<close>

theorem detect_language_code:
  "detect text \<in> {''en'', ''fi'', ''sv''} \<and>
   detect [] = ''en'' \<and>
   (snd (arg_max (detect_scores text)) < 0.1 \<longrightarrow> detect text = ''en'')"
  using arg_max_detect_scores [of "text"] by (auto simp add: detect_def Let_def)

lemma detect_scores_tack:
  "detect_scores ''tack a b c d e f'' = [(''en'', 0), (''fi'', 0), (''sv'', 1 / 14)]"
  by (simp add: detect_scores_def Let_def indicator_score_def FINNISH_CHARS_def SWEDISH_CHARS_def
      LANGUAGE_INDICATORS_en_def LANGUAGE_INDICATORS_fi_def LANGUAGE_INDICATORS_sv_def rx_eval)

text \<open>A Swedish word among six other words: Swedish is the arg-max, with 0.5 / 7, and the
  result is \<^verbatim>\<open>en\<close>.\<close>

theorem detect_language_code_witness:
  "arg_max (detect_scores ''tack a b c d e f'') = (''sv'', 1 / 14) \<and>
   snd (arg_max (detect_scores ''tack a b c d e f'')) < 0.1 \<and>
   detect ''tack a b c d e f'' = ''en''"
  using detect_language_code [of "''tack a b c d e f''"]
  by (simp add: detect_scores_tack arg_max_def)

section \<open>The intent classifier\<close>

subsection \<open>The score of an intent\<close>

lemma pattern_step_eq:
  "pattern_step t s p =
     s + (if 0 < findall_len True p t then real (findall_len True p t) * 0.3 + 0.5 else 0)"
  by (simp add: pattern_step_def re_search_findall)

lemma foldl_pattern_step:
  "foldl (pattern_step t) s ps =
     s + (\<Sum>n\<leftarrow>match_counts ps t. if 0 < n then real n * 0.3 + 0.5 else 0)"
  by (induction ps arbitrary: s) (simp_all add: match_counts_def pattern_step_eq)

lemma pattern_score_counts:
  "pattern_score ps t = (\<Sum>n\<leftarrow>match_counts ps t. if 0 < n then real n * 0.3 + 0.5 else 0)"
  by (simp add: pattern_score_def foldl_pattern_step)

lemma sum_counts_split:
  "(\<Sum>n\<leftarrow>ns. if 0 < n then real n * 0.3 + 0.5 else 0) =
     0.3 * real (sum_list ns) + 0.5 * real (length (filter (\<lambda>n. 0 < n) ns))"
  by (induction ns) (simp_all add: field_simps)

lemma pattern_score_nonneg: "0 \<le> pattern_score ps t"
  unfolding pattern_score_counts by (rule sum_list_nonneg) auto

lemma pattern_score_zero:
  "py_all (\<lambda>n. n = 0) (match_counts ps t) \<Longrightarrow> pattern_score ps t = 0"
  unfolding pattern_score_counts by (induction "match_counts ps t" arbitrary: ps) (auto simp add: match_counts_def)

lemma adjust_score_zero: "adjust_score intent t neg 0 = 0"
  by (simp add: adjust_score_def Let_def)

lemma lang_get_fallback: "map_of lp language = None \<Longrightarrow> lang_get lp language = lang_get lp ''en''"
  by (simp add: lang_get_def split: option.splits)

text \<open>
  C5, as the code has it. The score of an intent before the adjustments is 0.3 for each
  match occurrence plus 0.5 for each pattern of the list that matches (not one bonus for
  the whole list); the list is the one of the language, or the English one when the
  intent has none for the language.
\<close>

theorem pattern_score_formula:
  "pattern_score (lang_get lp language) t =
     0.3 * real (sum_list (match_counts (lang_get lp language) t)) +
     0.5 * real (length (filter (\<lambda>n. 0 < n) (match_counts (lang_get lp language) t))) \<and>
   (map_of lp language = None \<longrightarrow> lang_get lp language = lang_get lp ''en'')"
  by (simp add: pattern_score_counts sum_counts_split lang_get_fallback)

subsection \<open>Keys and ranges\<close>

lemma intent_pattern_keys:
  "map fst INTENT_PATTERNS =
     [''confirm_substitution'', ''reject_substitution'', ''request_callback'', ''report_issue'',
      ''confirm_delivery'', ''query_order_status'', ''provide_feedback'', ''greeting'',
      ''query_substitution'', ''thank_you'', ''change_delivery'', ''cancel_order'',
      ''query_products'']"
  by (simp add: INTENT_PATTERNS_def)

lemma intent_pattern_keys_vocabulary: "set (map fst INTENT_PATTERNS) \<subseteq> set INTENTS"
  unfolding intent_pattern_keys by (simp add: INTENTS_def)

lemma example_intents_vocabulary: "set EXAMPLE_INTENTS \<subseteq> set INTENTS"
  by (simp add: EXAMPLE_INTENTS_def INTENTS_def)

lemma filter_map_keys:
  "fst ` set (filter P (map (\<lambda>entry. (fst entry, g entry)) xs)) \<subseteq> set (map fst xs)"
  by (induction xs) auto

lemma rule_scores_keys: "fst ` set (rule_scores t l) \<subseteq> set (map fst INTENT_PATTERNS)"
  unfolding rule_scores_def by (rule filter_map_keys)

lemma boost_keys: "map fst (boost key f d) = map fst d"
  by (induction d) (auto simp add: boost_def)

lemma boost_set_keys: "fst ` set (boost key f d) = fst ` set d"
  using boost_keys [of key f d] by (metis list.set_map)

lemma seed_if_keys: "fst ` set (if c then seed key v d else d) \<subseteq> insert key (fst ` set d)"
  by (auto simp add: seed_def)

lemma boost_if_keys:
  "fst ` set (if c then boost k1 f1 (boost k2 f2 d) else d) = fst ` set d"
  by (simp add: boost_set_keys)

lemma append_if_keys:
  "fst ` set (if c then (if c' then d @ [(key, v)] else boost key f d) else d)
     \<subseteq> insert key (fst ` set d)"
  by (auto simp add: boost_set_keys)

lemma keys_chain2:
  "A3 = K \<Longrightarrow> A4 \<subseteq> insert a A3 \<Longrightarrow> A5 \<subseteq> insert b A4 \<Longrightarrow> A5 \<subseteq> K \<union> {a, b}"
  by blast

lemma keys_chain1: "A4 = K \<Longrightarrow> A5 \<subseteq> insert a A4 \<Longrightarrow> A5 \<subseteq> K \<union> {a}"
  by blast

lemma keys_cases:
  "A \<subseteq> K \<union> {a, b} \<Longrightarrow> B \<subseteq> K \<union> {c} \<Longrightarrow>
   (if p then A else if q then B else K) \<subseteq> K \<union> {a, b, c}"
  by auto

lemma keys_vocabulary:
  "D \<subseteq> R \<union> {a, b, c} \<Longrightarrow> R \<subseteq> P \<Longrightarrow> P \<subseteq> V \<Longrightarrow> a \<in> V \<Longrightarrow> b \<in> V \<Longrightarrow> c \<in> V
   \<Longrightarrow> D \<subseteq> V"
  by blast

lemma pre_order_keys:
  "fst ` set (pre_order_adjust t d) \<subseteq>
     fst ` set d \<union> {''confirm_substitution'', ''reject_substitution''}"
proof -
  define d3 where "d3 = boost ''query_substitution'' 1.5
    (boost ''reject_substitution'' 1.8 (boost ''confirm_substitution'' 1.8 d))"
  define d4 where "d4 =
    (if List.member [''yes'', ''yeah'', ''yep'', ''ok'', ''okay'', ''sure''] (py_strip t)
     then seed ''confirm_substitution'' 0.7 d3 else d3)"
  define d5 where "d5 =
    (if List.member [''no'', ''nope'', ''nah''] (py_strip t)
     then seed ''reject_substitution'' 0.7 d4 else d4)"
  have k3: "fst ` set d3 = fst ` set d"
    by (simp only: d3_def boost_set_keys)
  have k4: "fst ` set d4 \<subseteq> insert ''confirm_substitution'' (fst ` set d3)"
    unfolding d4_def by (rule seed_if_keys)
  have k5: "fst ` set d5 \<subseteq> insert ''reject_substitution'' (fst ` set d4)"
    unfolding d5_def by (rule seed_if_keys)
  have "pre_order_adjust t d = d5"
    by (simp only: pre_order_adjust_def Let_def d5_def d4_def d3_def)
  then show ?thesis
    using keys_chain2 [OF k3 k4 k5] by (simp only:)
qed

lemma post_delivery_keys:
  "fst ` set (post_delivery_adjust t ctx d) \<subseteq> fst ` set d \<union> {''report_issue''}"
proof -
  define d3 where "d3 = boost ''query_order_status'' 1.5
    (boost ''confirm_delivery'' 1.5 (boost ''report_issue'' 1.8 d))"
  define d4 where "d4 =
    (if (case ctx of None \<Rightarrow> False | Some c \<Rightarrow> proposed_solution c)
     then boost ''reject_substitution'' 1.5 (boost ''confirm_substitution'' 1.5 d3) else d3)"
  define d5 where "d5 =
    (if any_in issue_indicators t
     then (if \<not> has_key ''report_issue'' d4 then d4 @ [(''report_issue'', 0.7)]
           else boost ''report_issue'' 1.5 d4)
     else d4)"
  have k3: "fst ` set d3 = fst ` set d"
    by (simp only: d3_def boost_set_keys)
  have "fst ` set d4 = fst ` set d3"
    unfolding d4_def by (rule boost_if_keys)
  then have k4: "fst ` set d4 = fst ` set d"
    using k3 by (simp only:)
  have k5: "fst ` set d5 \<subseteq> insert ''report_issue'' (fst ` set d4)"
    unfolding d5_def by (rule append_if_keys)
  have "post_delivery_adjust t ctx d = d5"
    by (simp only: post_delivery_adjust_def Let_def d5_def d4_def d3_def)
  then show ?thesis
    using keys_chain1 [OF k4 k5] by (simp only:)
qed

lemma legacy_keys: "fst ` set (legacy_adjust ctx d) = fst ` set d"
proof (cases ctx)
  case None
  then show ?thesis by (simp only: legacy_adjust_def option.case)
next
  case (Some c)
  show ?thesis
    unfolding Some legacy_adjust_def option.case by (rule boost_if_keys)
qed

lemma context_adjust_keys:
  "fst ` set (context_adjust t ctx d) \<subseteq>
     fst ` set d \<union> {''confirm_substitution'', ''reject_substitution'', ''report_issue''}"
proof -
  have "fst ` set (if stage_of ctx = Some ''pre_order_substitution'' then pre_order_adjust t d
                   else if stage_of ctx = Some ''post_delivery_investigation''
                   then post_delivery_adjust t ctx d else d) =
        (if stage_of ctx = Some ''pre_order_substitution'' then fst ` set (pre_order_adjust t d)
         else if stage_of ctx = Some ''post_delivery_investigation''
         then fst ` set (post_delivery_adjust t ctx d) else fst ` set d)"
    by (simp only: if_distrib [of "\<lambda>x. fst ` set x"])
  then show ?thesis
    using keys_cases [OF pre_order_keys [of t d] post_delivery_keys [of t ctx d]]
    by (simp only: context_adjust_def legacy_keys)
qed

lemma intent_scores_vocabulary:
  "fst ` set (context_adjust t ctx (rule_scores t l)) \<subseteq> set INTENTS"
proof -
  have a: "''confirm_substitution'' \<in> set INTENTS"
    and b: "''reject_substitution'' \<in> set INTENTS"
    and c: "''report_issue'' \<in> set INTENTS"
    by (simp_all add: INTENTS_def)
  show ?thesis
    by (rule keys_vocabulary [OF context_adjust_keys rule_scores_keys
          intent_pattern_keys_vocabulary a b c])
qed

lemma normalized_scores_keys: "map fst (normalized_scores d) = map fst d"
  by (simp add: normalized_scores_def Let_def comp_def)

lemma in_insert_subset: "u \<in> V \<Longrightarrow> x \<in> insert u A \<Longrightarrow> A \<subseteq> V \<Longrightarrow> x \<in> V"
  by blast

lemma rule_based_intent:
  "fst (rule_based msg d) \<in> insert ''unknown'' (fst ` set d)"
proof (cases "d = []")
  case True
  then show ?thesis by (simp add: rule_based_def)
next
  case False
  then have "normalized_scores d \<noteq> []"
    using normalized_scores_keys [of d] by (metis map_is_Nil_conv)
  then have "arg_max (normalized_scores d) \<in> set (normalized_scores d)"
    by (rule arg_max_mem)
  then have "fst (arg_max (normalized_scores d)) \<in> set (map fst (normalized_scores d))"
    by (metis image_eqI list.set_map)
  then have "fst (arg_max (normalized_scores d)) \<in> fst ` set d"
    by (simp add: normalized_scores_keys)
  then show ?thesis
    using False by (simp add: rule_based_def)
qed

lemma final_confidence_range:
  "1 / 2 \<le> final_confidence b d v" "final_confidence b d v \<le> 19 / 20"
  by (simp_all add: final_confidence_def)

lemma rule_confidence_range:
  "1 / 2 \<le> rule_confidence msg d" "rule_confidence msg d \<le> 19 / 20"
  unfolding rule_confidence_def Let_def
  by (rule final_confidence_range)+

lemma rule_based_confidence:
  "0 \<le> fst (snd (rule_based msg d)) \<and> fst (snd (rule_based msg d)) \<le> 1"
proof (cases "d = []")
  case True
  then show ?thesis by (simp add: rule_based_def)
next
  case False
  then have "fst (snd (rule_based msg d)) = rule_confidence msg d"
    by (simp add: rule_based_def)
  then show ?thesis
    using rule_confidence_range [of msg d] by linarith
qed

lemma semantic_scores_entries:
  "e \<in> set (semantic_scores sc msg) \<Longrightarrow> fst e \<in> set EXAMPLE_INTENTS \<and> 0 \<le> snd e \<and> snd e \<le> 1"
  by (auto simp add: semantic_scores_def List.map_filter_def)

lemma semantic_classify_entries:
  "e \<in> set (semantic_classify sc msg l k) \<Longrightarrow> fst e \<in> set EXAMPLE_INTENTS \<and> 0 \<le> snd e \<and> snd e \<le> 1"
proof -
  assume "e \<in> set (semantic_classify sc msg l k)"
  then have "e \<in> set (semantic_scores sc msg)"
    by (auto simp add: semantic_classify_def split: if_splits dest: in_set_takeD)
  then show ?thesis by (rule semantic_scores_entries)
qed

lemma combine_semantic_range:
  assumes w: "0 \<le> semantic_weight cfg"
    and i: "fst rb \<in> set INTENTS"
    and e: "fst e \<in> set INTENTS" "0 \<le> snd e"
  shows "fst (combine_semantic cfg rb e) \<in> set INTENTS \<and>
         0 \<le> snd (combine_semantic cfg rb e) \<and>
         snd (combine_semantic cfg rb e) \<le> 1"
proof -
  have ws: "0 \<le> snd e * semantic_weight cfg" using e w by simp
  have r1: "0 \<le> min (snd e * semantic_weight cfg) (19 / 20)"
    "min (snd e * semantic_weight cfg) (19 / 20) \<le> 1"
    using ws by simp_all
  have r2: "0 \<le> min (max x (snd e * semantic_weight cfg)) (19 / 20)"
    "min (max x (snd e * semantic_weight cfg)) (19 / 20) \<le> 1" for x
    using ws by (simp_all add: le_max_iff_disj)
  show ?thesis
    unfolding combine_semantic_def Let_def
    using i e(1) r1 r2 by (simp split: if_splits)
qed

lemma semantic_fallback_cases:
  "semantic_fallback cfg sem msg l rb = (fst rb, fst (snd rb)) \<or>
   (\<exists>sc e es. sem = Some sc \<and> semantic_classify sc msg l 3 = e # es \<and>
      semantic_fallback cfg sem msg l rb = combine_semantic cfg rb e)"
  by (cases sem; cases "semantic_classify (the sem) msg l 3")
     (auto simp add: semantic_fallback_def Let_def)

lemma semantic_fallback_range:
  assumes w: "0 \<le> semantic_weight cfg"
    and i: "fst rb \<in> set INTENTS"
    and c: "0 \<le> fst (snd rb)" "fst (snd rb) \<le> 1"
  shows "fst (semantic_fallback cfg sem msg l rb) \<in> set INTENTS \<and>
         0 \<le> snd (semantic_fallback cfg sem msg l rb) \<and>
         snd (semantic_fallback cfg sem msg l rb) \<le> 1"
proof -
  consider (rule) "semantic_fallback cfg sem msg l rb = (fst rb, fst (snd rb))"
    | (sem) sc e es where "sem = Some sc" "semantic_classify sc msg l 3 = e # es"
        "semantic_fallback cfg sem msg l rb = combine_semantic cfg rb e"
    using semantic_fallback_cases [of cfg sem msg l rb] by blast
  then show ?thesis
  proof cases
    case rule
    then show ?thesis using i c by simp
  next
    case sem
    have "e \<in> set (semantic_classify sc msg l 3)" using sem(2) by simp
    then have e: "fst e \<in> set EXAMPLE_INTENTS" "0 \<le> snd e"
      using semantic_classify_entries by blast+
    then have ev: "fst e \<in> set INTENTS" using example_intents_vocabulary by blast
    show ?thesis
      using combine_semantic_range [OF w i ev e(2)] sem(3) by simp
  qed
qed

text \<open>
  C1. For every text, language code and context, \<open>classify\<close> returns an intent of the
  fixed vocabulary of 14 names and a confidence in \<open>[0, 1]\<close>, for every semantic
  classifier and every configuration whose semantic weight is not negative (the default
  is 0.8).
\<close>

theorem classify_vocabulary_range:
  assumes "0 \<le> semantic_weight cfg"
  shows "fst (classify cfg sem msg language ctx) \<in> set INTENTS \<and>
         0 \<le> snd (classify cfg sem msg language ctx) \<and>
         snd (classify cfg sem msg language ctx) \<le> 1"
proof (cases "msg = []")
  case True
  then show ?thesis by (simp add: classify_def INTENTS_def)
next
  case False
  define d where "d = context_adjust (py_lower msg) ctx (rule_scores (py_lower msg) language)"
  have keys: "fst ` set d \<subseteq> set INTENTS"
    unfolding d_def by (rule intent_scores_vocabulary)
  have "''unknown'' \<in> set INTENTS" by (simp add: INTENTS_def)
  then have i: "fst (rule_based msg d) \<in> set INTENTS"
    using rule_based_intent [of msg d] keys by (rule in_insert_subset)
  have c: "0 \<le> fst (snd (rule_based msg d))" "fst (snd (rule_based msg d)) \<le> 1"
    using rule_based_confidence [of msg d] by auto
  show ?thesis
    using semantic_fallback_range [OF assms i c, of sem msg language] False
    by (simp add: classify_def Let_def d_def)
qed

theorem classify_vocabulary_range_witness:
  "0 \<le> semantic_weight DEFAULT_CONFIG \<and>
   fst (classify DEFAULT_CONFIG None ''maybe later'' ''en'' None) \<in> set INTENTS \<and>
   0 \<le> snd (classify DEFAULT_CONFIG None ''maybe later'' ''en'' None) \<and>
   snd (classify DEFAULT_CONFIG None ''maybe later'' ''en'' None) \<le> 1"
proof -
  have w: "0 \<le> semantic_weight DEFAULT_CONFIG" by (simp add: DEFAULT_CONFIG_def)
  show ?thesis
    using w classify_vocabulary_range [OF w, of None "''maybe later''" "''en''" None] by simp
qed

subsection \<open>The pattern tables on the sample texts\<close>

lemma counts_yes_confirm_substitution:
  "match_counts confirm_substitution_en ''yes'' = [1, 0, 0, 0]"
  by (simp add: match_counts_def confirm_substitution_en_def rx_eval)

lemma counts_yes_reject_substitution:
  "match_counts reject_substitution_en ''yes'' = [0, 0, 0, 0, 0, 0]"
  by (simp add: match_counts_def reject_substitution_en_def rx_eval)

lemma counts_yes_request_callback:
  "match_counts request_callback_en ''yes'' = [0, 0, 0, 0, 0]"
  by (simp add: match_counts_def request_callback_en_def rx_eval)

lemma counts_yes_report_issue:
  "match_counts report_issue_en ''yes'' = [0, 0, 0, 0, 0, 0, 0, 0, 0, 0, 0, 0, 0]"
  by (simp add: match_counts_def report_issue_en_def rx_eval)

lemma counts_yes_confirm_delivery:
  "match_counts confirm_delivery_en ''yes'' = [0, 0, 0]"
  by (simp add: match_counts_def confirm_delivery_en_def rx_eval)

lemma counts_yes_query_order_status:
  "match_counts query_order_status_en ''yes'' = [0, 0, 0, 0]"
  by (simp add: match_counts_def query_order_status_en_def rx_eval)

lemma counts_yes_provide_feedback:
  "match_counts provide_feedback_en ''yes'' = [0, 0, 0]"
  by (simp add: match_counts_def provide_feedback_en_def rx_eval)

lemma counts_yes_greeting:
  "match_counts greeting_en ''yes'' = [0, 0]"
  by (simp add: match_counts_def greeting_en_def rx_eval)

lemma counts_yes_query_substitution:
  "match_counts query_substitution_en ''yes'' = [0, 0, 0, 0]"
  by (simp add: match_counts_def query_substitution_en_def rx_eval)

lemma counts_yes_thank_you:
  "match_counts thank_you_en ''yes'' = [0, 0, 0]"
  by (simp add: match_counts_def thank_you_en_def rx_eval)

lemma counts_yes_change_delivery:
  "match_counts change_delivery_en ''yes'' = [0, 0, 0, 0, 0, 0]"
  by (simp add: match_counts_def change_delivery_en_def rx_eval)

lemma counts_yes_cancel_order:
  "match_counts cancel_order_en ''yes'' = [0, 0, 0, 0]"
  by (simp add: match_counts_def cancel_order_en_def rx_eval)

lemma counts_yes_query_products:
  "match_counts query_products_en ''yes'' = [0, 0, 0, 0, 0]"
  by (simp add: match_counts_def query_products_en_def rx_eval)

lemma counts_no_confirm_substitution:
  "match_counts confirm_substitution_en ''no'' = [0, 0, 0, 0]"
  by (simp add: match_counts_def confirm_substitution_en_def rx_eval)

lemma counts_no_reject_substitution:
  "match_counts reject_substitution_en ''no'' = [1, 0, 0, 0, 0, 0]"
  by (simp add: match_counts_def reject_substitution_en_def rx_eval)

lemma counts_no_request_callback:
  "match_counts request_callback_en ''no'' = [0, 0, 0, 0, 0]"
  by (simp add: match_counts_def request_callback_en_def rx_eval)

lemma counts_no_report_issue:
  "match_counts report_issue_en ''no'' = [0, 0, 0, 0, 0, 0, 0, 0, 0, 0, 0, 0, 0]"
  by (simp add: match_counts_def report_issue_en_def rx_eval)

lemma counts_no_confirm_delivery:
  "match_counts confirm_delivery_en ''no'' = [0, 0, 0]"
  by (simp add: match_counts_def confirm_delivery_en_def rx_eval)

lemma counts_no_query_order_status:
  "match_counts query_order_status_en ''no'' = [0, 0, 0, 0]"
  by (simp add: match_counts_def query_order_status_en_def rx_eval)

lemma counts_no_provide_feedback:
  "match_counts provide_feedback_en ''no'' = [0, 0, 0]"
  by (simp add: match_counts_def provide_feedback_en_def rx_eval)

lemma counts_no_greeting:
  "match_counts greeting_en ''no'' = [0, 0]"
  by (simp add: match_counts_def greeting_en_def rx_eval)

lemma counts_no_query_substitution:
  "match_counts query_substitution_en ''no'' = [0, 0, 0, 0]"
  by (simp add: match_counts_def query_substitution_en_def rx_eval)

lemma counts_no_thank_you:
  "match_counts thank_you_en ''no'' = [0, 0, 0]"
  by (simp add: match_counts_def thank_you_en_def rx_eval)

lemma counts_no_change_delivery:
  "match_counts change_delivery_en ''no'' = [0, 0, 0, 0, 0, 0]"
  by (simp add: match_counts_def change_delivery_en_def rx_eval)

lemma counts_no_cancel_order:
  "match_counts cancel_order_en ''no'' = [0, 0, 0, 0]"
  by (simp add: match_counts_def cancel_order_en_def rx_eval)

lemma counts_no_query_products:
  "match_counts query_products_en ''no'' = [0, 0, 0, 0, 0]"
  by (simp add: match_counts_def query_products_en_def rx_eval)

lemma counts_not_receive_confirm_substitution:
  "match_counts confirm_substitution_en ''not receive'' = [0, 0, 0, 0]"
  by (simp add: match_counts_def confirm_substitution_en_def rx_eval)

lemma counts_not_receive_reject_substitution:
  "match_counts reject_substitution_en ''not receive'' = [0, 0, 0, 0, 0, 0]"
  by (simp add: match_counts_def reject_substitution_en_def rx_eval)

lemma counts_not_receive_request_callback:
  "match_counts request_callback_en ''not receive'' = [0, 0, 0, 0, 0]"
  by (simp add: match_counts_def request_callback_en_def rx_eval)

lemma counts_not_receive_report_issue:
  "match_counts report_issue_en ''not receive'' = [0, 0, 0, 0, 0, 0, 0, 0, 0, 0, 0, 0, 0]"
  by (simp add: match_counts_def report_issue_en_def rx_eval)

lemma counts_not_receive_confirm_delivery:
  "match_counts confirm_delivery_en ''not receive'' = [0, 0, 0]"
  by (simp add: match_counts_def confirm_delivery_en_def rx_eval)

lemma counts_not_receive_query_order_status:
  "match_counts query_order_status_en ''not receive'' = [0, 0, 0, 0]"
  by (simp add: match_counts_def query_order_status_en_def rx_eval)

lemma counts_not_receive_provide_feedback:
  "match_counts provide_feedback_en ''not receive'' = [0, 0, 0]"
  by (simp add: match_counts_def provide_feedback_en_def rx_eval)

lemma counts_not_receive_greeting:
  "match_counts greeting_en ''not receive'' = [0, 0]"
  by (simp add: match_counts_def greeting_en_def rx_eval)

lemma counts_not_receive_query_substitution:
  "match_counts query_substitution_en ''not receive'' = [0, 0, 0, 0]"
  by (simp add: match_counts_def query_substitution_en_def rx_eval)

lemma counts_not_receive_thank_you:
  "match_counts thank_you_en ''not receive'' = [0, 0, 0]"
  by (simp add: match_counts_def thank_you_en_def rx_eval)

lemma counts_not_receive_change_delivery:
  "match_counts change_delivery_en ''not receive'' = [0, 0, 0, 0, 0, 0]"
  by (simp add: match_counts_def change_delivery_en_def rx_eval)

lemma counts_not_receive_cancel_order:
  "match_counts cancel_order_en ''not receive'' = [0, 0, 0, 0]"
  by (simp add: match_counts_def cancel_order_en_def rx_eval)

lemma counts_not_receive_query_products:
  "match_counts query_products_en ''not receive'' = [0, 0, 0, 0, 0]"
  by (simp add: match_counts_def query_products_en_def rx_eval)

lemma counts_yes_i_accept:
  "match_counts confirm_substitution_en ''yes i accept'' = [2, 1, 0, 0]"
  by (simp add: match_counts_def confirm_substitution_en_def rx_eval)

subsection \<open>The classifier on the sample texts\<close>

lemmas score_eval =
  rule_scores_def INTENT_PATTERNS_def intent_score_def lang_get_def pattern_score_counts
  adjust_score_zero

lemma has_key_simps:
  "has_key key [] = False"
  "has_key key (entry # d) = (key = fst entry \<or> has_key key d)"
  by (auto simp add: has_key_def)

lemmas dict_eval =
  boost_def seed_def has_key_simps normalized_scores_def rule_confidence_def rule_based_def
  max_value_def arg_max_def final_confidence_def

lemma has_negation_yes: "has_negation ''yes'' ''en'' = False"
  by (simp add: has_negation_def lang_get_def negation_words_def negation_words_en_def in_eval)

lemma has_negation_no: "has_negation ''no'' ''en'' = True"
  by (simp add: has_negation_def lang_get_def negation_words_def negation_words_en_def in_eval)

lemma rule_scores_yes: "rule_scores ''yes'' ''en'' = [(''confirm_substitution'', 4 / 5)]"
  by (simp add: score_eval counts_yes_confirm_substitution counts_yes_reject_substitution counts_yes_request_callback counts_yes_report_issue counts_yes_confirm_delivery counts_yes_query_order_status counts_yes_provide_feedback counts_yes_greeting counts_yes_query_substitution counts_yes_thank_you counts_yes_change_delivery counts_yes_cancel_order counts_yes_query_products
      adjust_score_def has_negation_yes)

lemma rule_scores_no: "rule_scores ''no'' ''en'' = [(''reject_substitution'', 6 / 5)]"
  by (simp add: score_eval counts_no_confirm_substitution counts_no_reject_substitution counts_no_request_callback counts_no_report_issue counts_no_confirm_delivery counts_no_query_order_status counts_no_provide_feedback counts_no_greeting counts_no_query_substitution counts_no_thank_you counts_no_change_delivery counts_no_cancel_order counts_no_query_products
      adjust_score_def has_negation_no in_eval)

lemma rule_scores_not_receive: "rule_scores ''not receive'' ''en'' = []"
  by (simp add: score_eval counts_not_receive_confirm_substitution counts_not_receive_reject_substitution counts_not_receive_request_callback counts_not_receive_report_issue counts_not_receive_confirm_delivery counts_not_receive_query_order_status counts_not_receive_provide_feedback counts_not_receive_greeting counts_not_receive_query_substitution counts_not_receive_thank_you counts_not_receive_change_delivery counts_not_receive_cancel_order counts_not_receive_query_products)

lemma no_pattern_matches_not_receive: "no_pattern_matches ''not receive'' ''en''"
  by (simp add: no_pattern_matches_def INTENT_PATTERNS_def lang_get_def
      counts_not_receive_confirm_substitution counts_not_receive_reject_substitution counts_not_receive_request_callback counts_not_receive_report_issue counts_not_receive_confirm_delivery counts_not_receive_query_order_status counts_not_receive_provide_feedback counts_not_receive_greeting counts_not_receive_query_substitution counts_not_receive_thank_you counts_not_receive_change_delivery counts_not_receive_cancel_order counts_not_receive_query_products)

lemma context_adjust_pre_order:
  assumes "stage_of ctx = Some ''pre_order_substitution''"
  shows "context_adjust t ctx d = pre_order_adjust t d"
proof (cases ctx)
  case None
  then show ?thesis using assms by (simp add: stage_of_def)
next
  case (Some c)
  then have "conversation_stage c = Some ''pre_order_substitution''"
    using assms by (simp add: stage_of_def)
  then show ?thesis
    using Some by (simp add: context_adjust_def stage_of_def legacy_adjust_def truthy_def)
qed

lemma pre_order_yes:
  "pre_order_adjust ''yes'' [(''confirm_substitution'', 4 / 5)] = [(''confirm_substitution'', 36 / 25)]"
  by (simp add: pre_order_adjust_def Let_def dict_eval rx_eval)

lemma pre_order_no:
  "pre_order_adjust ''no'' [(''reject_substitution'', 6 / 5)] = [(''reject_substitution'', 54 / 25)]"
  by (simp add: pre_order_adjust_def Let_def dict_eval rx_eval)

lemma rule_based_yes:
  "rule_based ''yes'' [(''confirm_substitution'', 36 / 25)] =
     (''confirm_substitution'', 17 / 20, [(''confirm_substitution'', 1)])"
  by (simp add: Let_def dict_eval rx_eval)

lemma rule_based_no:
  "rule_based ''no'' [(''reject_substitution'', 54 / 25)] =
     (''reject_substitution'', 17 / 20, [(''reject_substitution'', 1)])"
  by (simp add: Let_def dict_eval rx_eval)

lemma semantic_fallback_confident:
  assumes "intent \<noteq> ''unknown''" and "semantic_threshold cfg \<le> c"
  shows "semantic_fallback cfg sem msg l (intent, c, d) = (intent, c)"
  using assms by (cases sem) (simp_all add: semantic_fallback_def Let_def)

lemma classify_yes:
  assumes "stage_of ctx = Some ''pre_order_substitution''"
  shows "classify DEFAULT_CONFIG sem ''yes'' ''en'' ctx = (''confirm_substitution'', 17 / 20)"
proof -
  have "semantic_fallback DEFAULT_CONFIG sem ''yes'' ''en''
          (''confirm_substitution'', 17 / 20, [(''confirm_substitution'', 1)]) =
        (''confirm_substitution'', 17 / 20)"
    by (rule semantic_fallback_confident) (simp_all add: DEFAULT_CONFIG_def)
  then show ?thesis
    by (simp add: classify_def Let_def py_lower_def py_lower_chars rule_scores_yes
        context_adjust_pre_order [OF assms] pre_order_yes rule_based_yes)
qed

lemma classify_no:
  assumes "stage_of ctx = Some ''pre_order_substitution''"
  shows "classify DEFAULT_CONFIG sem ''no'' ''en'' ctx = (''reject_substitution'', 17 / 20)"
proof -
  have "semantic_fallback DEFAULT_CONFIG sem ''no'' ''en''
          (''reject_substitution'', 17 / 20, [(''reject_substitution'', 1)]) =
        (''reject_substitution'', 17 / 20)"
    by (rule semantic_fallback_confident) (simp_all add: DEFAULT_CONFIG_def)
  then show ?thesis
    by (simp add: classify_def Let_def py_lower_def py_lower_chars rule_scores_no
        context_adjust_pre_order [OF assms] pre_order_no rule_based_no)
qed

text \<open>
  C6. With the conversation stage \<^verbatim>\<open>pre_order_substitution\<close> in the context, and for
  every semantic classifier under the default configuration, the bare English
  utterance \<^verbatim>\<open>yes\<close> is classified \<^verbatim>\<open>confirm_substitution\<close> and the bare \<^verbatim>\<open>no\<close> is
  classified \<^verbatim>\<open>reject_substitution\<close>, each with a confidence of at least 0.5 (it is 0.85).
\<close>

theorem classify_bare_yes_no:
  assumes "stage_of ctx = Some ''pre_order_substitution''"
  shows "fst (classify DEFAULT_CONFIG sem ''yes'' ''en'' ctx) = ''confirm_substitution'' \<and>
         0.5 \<le> snd (classify DEFAULT_CONFIG sem ''yes'' ''en'' ctx) \<and>
         fst (classify DEFAULT_CONFIG sem ''no'' ''en'' ctx) = ''reject_substitution'' \<and>
         0.5 \<le> snd (classify DEFAULT_CONFIG sem ''no'' ''en'' ctx)"
  by (simp add: classify_yes [OF assms] classify_no [OF assms])

theorem classify_bare_yes_no_witness:
  "stage_of (Some pre_order_context) = Some ''pre_order_substitution'' \<and>
   fst (classify DEFAULT_CONFIG None ''yes'' ''en'' (Some pre_order_context)) = ''confirm_substitution'' \<and>
   0.5 \<le> snd (classify DEFAULT_CONFIG None ''yes'' ''en'' (Some pre_order_context)) \<and>
   fst (classify DEFAULT_CONFIG None ''no'' ''en'' (Some pre_order_context)) = ''reject_substitution'' \<and>
   0.5 \<le> snd (classify DEFAULT_CONFIG None ''no'' ''en'' (Some pre_order_context))"
proof -
  have st: "stage_of (Some pre_order_context) = Some ''pre_order_substitution''"
    by (simp add: stage_of_def pre_order_context_def)
  show ?thesis
    using st classify_bare_yes_no [OF st, of None] by simp
qed

subsection \<open>The result \<^verbatim>\<open>unknown\<close>\<close>

lemma rule_scores_empty_aux:
  "py_all (\<lambda>entry. py_all (\<lambda>n. n = 0) (match_counts (lang_get (snd entry) l) t)) xs \<Longrightarrow>
   filter (\<lambda>entry. 0 < snd entry)
       (map (\<lambda>entry. (fst entry, intent_score (fst entry) (snd entry) l t)) xs) = []"
  by (induction xs) (simp_all add: intent_score_def pattern_score_zero adjust_score_zero)

lemma rule_scores_empty: "no_pattern_matches t l \<Longrightarrow> rule_scores t l = []"
  unfolding no_pattern_matches_def rule_scores_def by (rule rule_scores_empty_aux)

lemma boost_Nil: "boost key f [] = []"
  by (simp add: boost_def has_key_simps)

lemma pre_order_adjust_Nil:
  assumes "\<not> List.member [''yes'', ''yeah'', ''yep'', ''ok'', ''okay'', ''sure''] (py_strip t)"
    and "\<not> List.member [''no'', ''nope'', ''nah''] (py_strip t)"
  shows "pre_order_adjust t [] = []"
  by (simp only: pre_order_adjust_def Let_def boost_Nil assms if_False)

lemma post_delivery_adjust_Nil:
  assumes "\<not> any_in issue_indicators t"
  shows "post_delivery_adjust t ctx [] = []"
  by (simp only: post_delivery_adjust_def Let_def boost_Nil assms if_False if_cancel)

lemma legacy_adjust_Nil: "legacy_adjust ctx [] = []"
  by (cases ctx) (simp_all only: legacy_adjust_def option.case boost_Nil if_cancel)

lemma context_adjust_Nil:
  assumes "\<not> stage_seeds t ctx"
  shows "context_adjust t ctx [] = []"
proof -
  consider (pre) "stage_of ctx = Some ''pre_order_substitution''"
    | (post) "stage_of ctx \<noteq> Some ''pre_order_substitution''"
        "stage_of ctx = Some ''post_delivery_investigation''"
    | (other) "stage_of ctx \<noteq> Some ''pre_order_substitution''"
        "stage_of ctx \<noteq> Some ''post_delivery_investigation''"
    by blast
  then show ?thesis
  proof cases
    case pre
    then have "\<not> List.member [''yes'', ''yeah'', ''yep'', ''ok'', ''okay'', ''sure''] (py_strip t)"
      and "\<not> List.member [''no'', ''nope'', ''nah''] (py_strip t)"
      using assms unfolding stage_seeds_def by blast+
    then have "pre_order_adjust t [] = []" by (rule pre_order_adjust_Nil)
    then show ?thesis
      using pre by (simp add: context_adjust_def legacy_adjust_Nil)
  next
    case post
    then have "\<not> any_in issue_indicators t"
      using assms unfolding stage_seeds_def by blast
    then have "post_delivery_adjust t ctx [] = []" by (rule post_delivery_adjust_Nil)
    then show ?thesis
      using post by (simp add: context_adjust_def legacy_adjust_Nil)
  next
    case other
    then show ?thesis
      by (simp add: context_adjust_def legacy_adjust_Nil)
  qed
qed

lemma semantic_fallback_unavailable:
  "semantic_unavailable cfg sem \<Longrightarrow> semantic_fallback cfg sem msg l rb = (fst rb, fst (snd rb))"
  by (cases sem) (auto simp add: semantic_unavailable_def semantic_fallback_def Let_def)

text \<open>
  C4, as the code has it. On the empty text \<open>classify\<close> returns \<^verbatim>\<open>('unknown', 0.0)\<close>. On a
  text that no intent pattern matches it returns \<^verbatim>\<open>('unknown', 0.3)\<close> when the semantic
  classifier is unavailable and the conversation stage puts no score of its own into
  the dictionary (a bare yes or no before the order, an issue phrase after the
  delivery).
\<close>

theorem classify_unknown:
  "classify cfg sem [] language ctx = (''unknown'', 0) \<and>
   (msg \<noteq> [] \<and> no_pattern_matches (py_lower msg) language \<and>
    \<not> stage_seeds (py_lower msg) ctx \<and> semantic_unavailable cfg sem
    \<longrightarrow> classify cfg sem msg language ctx = (''unknown'', 0.3))"
proof -
  have "classify cfg sem msg language ctx = (''unknown'', 0.3)"
    if "msg \<noteq> []" "no_pattern_matches (py_lower msg) language"
      "\<not> stage_seeds (py_lower msg) ctx" "semantic_unavailable cfg sem"
  proof -
    have "context_adjust (py_lower msg) ctx (rule_scores (py_lower msg) language) = []"
      using rule_scores_empty [OF that(2)] context_adjust_Nil [OF that(3)] by simp
    then show ?thesis
      using that(1,4)
      by (simp add: classify_def Let_def rule_based_def semantic_fallback_unavailable)
  qed
  then show ?thesis
    by (simp add: classify_def)
qed

lemma py_lower_not_receive: "py_lower ''not receive'' = ''not receive''"
  by (simp add: py_lower_def py_lower_chars)

text \<open>No pattern matches \<^verbatim>\<open>not receive\<close>; without a conversation stage the result is
  \<^verbatim>\<open>('unknown', 0.3)\<close>.\<close>

theorem classify_unknown_witness:
  "''not receive'' \<noteq> [] \<and> no_pattern_matches (py_lower ''not receive'') ''en'' \<and>
   \<not> stage_seeds (py_lower ''not receive'') None \<and> semantic_unavailable DEFAULT_CONFIG None \<and>
   classify DEFAULT_CONFIG None ''not receive'' ''en'' None = (''unknown'', 0.3)"
proof -
  have a: "no_pattern_matches (py_lower ''not receive'') ''en''"
    by (simp only: py_lower_not_receive no_pattern_matches_not_receive)
  have b: "\<not> stage_seeds (py_lower ''not receive'') None"
    by (simp add: stage_seeds_def stage_of_def)
  have c: "semantic_unavailable DEFAULT_CONFIG None"
    by (simp add: semantic_unavailable_def)
  show ?thesis
    using a b c classify_unknown [of DEFAULT_CONFIG None "''en''" None "''not receive''"]
    by simp
qed

lemma context_adjust_post_delivery:
  "context_adjust t (Some post_delivery_context) d = post_delivery_adjust t (Some post_delivery_context) d"
  by (simp add: context_adjust_def stage_of_def legacy_adjust_def truthy_def post_delivery_context_def)

lemma post_delivery_not_receive:
  "post_delivery_adjust ''not receive'' (Some post_delivery_context) [] = [(''report_issue'', 7 / 10)]"
  by (simp add: post_delivery_adjust_def Let_def dict_eval post_delivery_context_def
      issue_indicators_def in_eval)

lemma rule_based_not_receive:
  "rule_based ''not receive'' [(''report_issue'', 7 / 10)] =
     (''report_issue'', 1 / 2, [(''report_issue'', 7 / 10)])"
  by (simp add: Let_def dict_eval rx_eval)

text \<open>After the delivery the issue phrase \<^verbatim>\<open>not receive\<close> seeds \<^verbatim>\<open>report_issue\<close> with 0.7,
  although no pattern matches and there is no semantic classifier.\<close>

theorem classify_unknown_counterexample:
  "no_pattern_matches (py_lower ''not receive'') ''en'' \<and>
   semantic_unavailable DEFAULT_CONFIG None \<and>
   classify DEFAULT_CONFIG None ''not receive'' ''en'' (Some post_delivery_context) =
     (''report_issue'', 1 / 2) \<and>
   classify DEFAULT_CONFIG None ''not receive'' ''en'' (Some post_delivery_context) \<noteq>
     (''unknown'', 0.3)"
proof -
  have a: "no_pattern_matches (py_lower ''not receive'') ''en''"
    by (simp only: py_lower_not_receive no_pattern_matches_not_receive)
  have c: "semantic_unavailable DEFAULT_CONFIG None"
    by (simp add: semantic_unavailable_def)
  have "classify DEFAULT_CONFIG None ''not receive'' ''en'' (Some post_delivery_context) =
          (''report_issue'', 1 / 2)"
    by (simp add: classify_def Let_def py_lower_not_receive rule_scores_not_receive
        context_adjust_post_delivery post_delivery_not_receive rule_based_not_receive
        semantic_fallback_def)
  then show ?thesis
    using a c by simp
qed

subsection \<open>The score formula on a sample text\<close>

text \<open>Two patterns of \<^verbatim>\<open>confirm_substitution\<close> match \<^verbatim>\<open>yes i accept\<close>, the first twice: the
  code gives \<open>3 * 0.3 + 2 * 0.5\<close>, the formula with one bonus \<open>3 * 0.3 + 0.5\<close>.\<close>

theorem pattern_score_counterexample:
  "pattern_score confirm_substitution_en ''yes i accept'' = 19 / 10 \<and>
   spec_pattern_score confirm_substitution_en ''yes i accept'' = 14 / 10 \<and>
   pattern_score confirm_substitution_en ''yes i accept'' \<noteq>
     spec_pattern_score confirm_substitution_en ''yes i accept''"
  by (simp add: pattern_score_counts spec_pattern_score_def counts_yes_i_accept)

text \<open>German has no pattern list: the English one is used.\<close>

theorem pattern_score_formula_witness:
  "map_of [(''en'', confirm_substitution_en), (''fi'', confirm_substitution_fi),
           (''sv'', confirm_substitution_sv)] ''de'' = None \<and>
   lang_get [(''en'', confirm_substitution_en), (''fi'', confirm_substitution_fi),
             (''sv'', confirm_substitution_sv)] ''de'' = confirm_substitution_en \<and>
   pattern_score (lang_get [(''en'', confirm_substitution_en), (''fi'', confirm_substitution_fi),
             (''sv'', confirm_substitution_sv)] ''de'') ''yes i accept'' = 0.3 * 3 + 0.5 * 2"
proof -
  have l: "lang_get [(''en'', confirm_substitution_en), (''fi'', confirm_substitution_fi),
             (''sv'', confirm_substitution_sv)] ''de'' = confirm_substitution_en"
    by (simp add: lang_get_def)
  show ?thesis
    using pattern_score_formula
      [of "[(''en'', confirm_substitution_en), (''fi'', confirm_substitution_fi),
            (''sv'', confirm_substitution_sv)]" "''de''" "''yes i accept''"]
    by (simp add: l counts_yes_i_accept)
qed

subsection \<open>Negation\<close>

lemma has_negation_en: "py_in ''no'' t \<Longrightarrow> has_negation t ''en''"
  by (simp add: has_negation_def lang_get_def negation_words_def negation_words_en_def any_in_def)

lemma py_in_not_no: "py_in ''not'' t \<Longrightarrow> py_in ''no'' t"
proof -
  assume "py_in ''not'' t"
  then obtain ps ss where "t = ps @ ''not'' @ ss"
    by (auto simp add: py_in_def sublist_def)
  then have "t = ps @ ''no'' @ (CHR ''t'' # ss)" by simp
  then show ?thesis
    unfolding py_in_def sublist_def by blast
qed

lemma adjust_confirm: "adjust_score ''confirm_substitution'' t True s = s * 0.1"
  by (simp add: adjust_score_def Let_def)

lemma adjust_reject:
  "adjust_score ''reject_substitution'' t True s =
     (if py_in ''in my order'' t \<or> py_in ''from my order'' t then s * 1.5 * 0.3 else s * 1.5)"
  by (simp add: adjust_score_def Let_def)

text \<open>
  C10. The negation test of the classifier is containment as a substring: for every
  text that contains \<^verbatim>\<open>no\<close> or \<^verbatim>\<open>not\<close> anywhere, also inside a longer word,
  \<open>has_negation\<close> holds for English, and the score of \<^verbatim>\<open>confirm_substitution\<close> is its
  pattern score times 0.1 and the score of \<^verbatim>\<open>reject_substitution\<close> its pattern score
  times 1.5 (and then times 0.3 if the text speaks of \<^verbatim>\<open>in my order\<close> or
  \<^verbatim>\<open>from my order\<close>, the later adjustment of that intent).
\<close>

theorem has_negation_substring:
  assumes "py_in ''no'' t \<or> py_in ''not'' t"
  shows "has_negation t ''en'' \<and>
         intent_score ''confirm_substitution'' lp ''en'' t =
           pattern_score (lang_get lp ''en'') t * 0.1 \<and>
         intent_score ''reject_substitution'' lp ''en'' t =
           (if py_in ''in my order'' t \<or> py_in ''from my order'' t
            then pattern_score (lang_get lp ''en'') t * 1.5 * 0.3
            else pattern_score (lang_get lp ''en'') t * 1.5)"
proof -
  have "py_in ''no'' t" using assms py_in_not_no by blast
  then have n: "has_negation t ''en''" by (rule has_negation_en)
  then have "has_negation t ''en'' = True" by simp
  then show ?thesis
    by (simp only: intent_score_def adjust_confirm adjust_reject simp_thms)
qed

text \<open>The words \<^verbatim>\<open>know\<close>, \<^verbatim>\<open>now\<close> and \<^verbatim>\<open>notice\<close> count as negations.\<close>

theorem has_negation_substring_witness:
  "(py_in ''no'' ''i know'' \<or> py_in ''not'' ''i know'') \<and>
   has_negation ''i know'' ''en'' \<and> has_negation ''now'' ''en'' \<and> has_negation ''notice'' ''en'' \<and>
   intent_score ''confirm_substitution'' [(''en'', confirm_substitution_en)] ''en'' ''i know'' =
     pattern_score confirm_substitution_en ''i know'' * 0.1"
proof -
  have a: "py_in ''no'' ''i know''" by (simp add: in_eval)
  have b: "has_negation ''now'' ''en''" "has_negation ''notice'' ''en''"
    by (rule has_negation_en, simp add: in_eval)+
  show ?thesis
    using a b has_negation_substring [of "''i know''" "[(''en'', confirm_substitution_en)]"]
    by (simp add: lang_get_def)
qed

end
